theory Spec2Isabelle
  imports Complex_Main
begin

section \<open>Numbers of the page\<close>

text \<open>
  The TypeScript type \<open>number\<close> is an IEEE 754 double. It is modelled by the finite
  values, each as the rational number the double stands for, and the three special
  values \<open>NaN\<close>, \<open>Infinity\<close> and \<open>-Infinity\<close>. Every arithmetic operation and
  \<open>parseFloat\<close> round their exact result to the nearest double, ties to the even
  mantissa, and overflow to an infinity. The sign of zero is outside this model.
\<close>

datatype jsnum = Fin rat | NaN | PosInf | NegInf

subsection \<open>Rounding to a double\<close>

text \<open>
  A double has a mantissa of 53 bits: a positive double is \<open>n * 2 ^ p\<close> with
  \<open>n < 2 ^ 53\<close> and \<open>-1074 \<le> p\<close>, and it is below \<open>2 ^ 1024\<close>. For a positive rational
  \<open>q\<close> the exponent \<open>p\<close> of its neighbours is found by halving \<open>q\<close> until it is below
  \<open>2 ^ 53\<close>, or by doubling it until it reaches \<open>2 ^ 52\<close>, at most 1074 times.
\<close>

function ulp_down :: "rat \<Rightarrow> nat" where
  "ulp_down q = (if q < 2 ^ 53 then 0 else Suc (ulp_down (q / 2)))"
  by pat_completeness auto
termination
proof (relation "measure (\<lambda>q. nat \<lfloor>q\<rfloor>)")
  show "wf (measure (\<lambda>q::rat. nat \<lfloor>q\<rfloor>))" by simp
next
  fix q :: rat
  assume "\<not> q < 2 ^ 53"
  then have q: "2 \<le> q" by simp
  then have "q / 2 \<le> q - 1" by simp
  then have "\<lfloor>q / 2\<rfloor> \<le> \<lfloor>q - 1\<rfloor>" by (rule floor_mono)
  moreover from q have "0 < \<lfloor>q\<rfloor>" by simp
  ultimately show "(q / 2, q) \<in> measure (\<lambda>q. nat \<lfloor>q\<rfloor>)" by simp
qed

function ulp_up :: "nat \<Rightarrow> rat \<Rightarrow> nat" where
  "ulp_up k q = (if 2 ^ 52 \<le> q \<or> 1074 \<le> k then k else ulp_up (Suc k) (2 * q))"
  by pat_completeness auto
termination
  by (relation "measure (\<lambda>(k, q). 1074 - k)") auto

declare ulp_down.simps [simp del] ulp_up.simps [simp del]

definition ulp_exp :: "rat \<Rightarrow> int" where
  "ulp_exp q = (if 2 ^ 53 \<le> q then int (ulp_down q) else - int (ulp_up 0 q))"

text \<open>\<open>x * 2 ^ p\<close> for an integer \<open>p\<close>.\<close>

definition scale2 :: "rat \<Rightarrow> int \<Rightarrow> rat" where
  "scale2 x p = (if 0 \<le> p then x * 2 ^ nat p else x / 2 ^ nat (- p))"

text \<open>The nearest integer; halfway between two integers, the even one.\<close>

definition round_half_even :: "rat \<Rightarrow> int" where
  "round_half_even m =
     (let f = \<lfloor>m\<rfloor>; d = m - of_int f
      in if d < 1 / 2 then f else if 1 / 2 < d then f + 1 else if even f then f else f + 1)"

text \<open>The double nearest to a rational number.\<close>

definition to_double :: "rat \<Rightarrow> jsnum" where
  "to_double q =
     (if q = 0 then Fin 0
      else
        let p = ulp_exp \<bar>q\<bar>;
            r = scale2 (of_int (round_half_even (scale2 \<bar>q\<bar> (- p)))) p
        in if 2 ^ 1024 \<le> r then (if q < 0 then NegInf else PosInf)
           else Fin (if q < 0 then - r else r))"

subsection \<open>Operations\<close>

text \<open>Truthiness of a number, as \<open>||\<close> and \<open>&&\<close> see it: \<open>0\<close> and \<open>NaN\<close> are falsy.\<close>

fun truthy :: "jsnum \<Rightarrow> bool" where
  "truthy (Fin r) = (r \<noteq> 0)"
| "truthy NaN = False"
| "truthy PosInf = True"
| "truthy NegInf = True"

text \<open>The expression \<open>a || b\<close> on numbers.\<close>

definition num_or :: "jsnum \<Rightarrow> jsnum \<Rightarrow> jsnum" where
  "num_or a b = (if truthy a then a else b)"

fun jneg :: "jsnum \<Rightarrow> jsnum" where
  "jneg (Fin r) = Fin (- r)"
| "jneg NaN = NaN"
| "jneg PosInf = NegInf"
| "jneg NegInf = PosInf"

text \<open>The operator \<open>+\<close> on numbers: the exact sum, rounded.\<close>

fun jadd :: "jsnum \<Rightarrow> jsnum \<Rightarrow> jsnum" where
  "jadd (Fin a) (Fin b) = to_double (a + b)"
| "jadd NaN y = NaN"
| "jadd x NaN = NaN"
| "jadd PosInf NegInf = NaN"
| "jadd NegInf PosInf = NaN"
| "jadd PosInf y = PosInf"
| "jadd x PosInf = PosInf"
| "jadd NegInf y = NegInf"
| "jadd x NegInf = NegInf"

text \<open>An infinity with the sign of a rational; zero counts as positive.\<close>

definition inf_of_sign :: "rat \<Rightarrow> jsnum" where
  "inf_of_sign r = (if r < 0 then NegInf else PosInf)"

text \<open>The operator \<open>*\<close> on numbers: the exact product, rounded.\<close>

fun jmul :: "jsnum \<Rightarrow> jsnum \<Rightarrow> jsnum" where
  "jmul (Fin a) (Fin b) = to_double (a * b)"
| "jmul NaN y = NaN"
| "jmul x NaN = NaN"
| "jmul PosInf (Fin b) = (if b = 0 then NaN else inf_of_sign b)"
| "jmul NegInf (Fin b) = (if b = 0 then NaN else jneg (inf_of_sign b))"
| "jmul (Fin a) PosInf = (if a = 0 then NaN else inf_of_sign a)"
| "jmul (Fin a) NegInf = (if a = 0 then NaN else jneg (inf_of_sign a))"
| "jmul PosInf PosInf = PosInf"
| "jmul PosInf NegInf = NegInf"
| "jmul NegInf PosInf = NegInf"
| "jmul NegInf NegInf = PosInf"

text \<open>
  The operator \<open>/\<close> on numbers: the exact quotient, rounded. A division by zero does
  not raise: \<open>0 / 0\<close> is \<open>NaN\<close> and \<open>x / 0\<close> is an infinity with the sign of \<open>x\<close>.
\<close>

fun jdiv :: "jsnum \<Rightarrow> jsnum \<Rightarrow> jsnum" where
  "jdiv (Fin a) (Fin b) =
     (if b = 0 then (if a = 0 then NaN else inf_of_sign a) else to_double (a / b))"
| "jdiv NaN y = NaN"
| "jdiv x NaN = NaN"
| "jdiv (Fin a) PosInf = Fin 0"
| "jdiv (Fin a) NegInf = Fin 0"
| "jdiv PosInf (Fin b) = inf_of_sign b"
| "jdiv NegInf (Fin b) = jneg (inf_of_sign b)"
| "jdiv PosInf PosInf = NaN"
| "jdiv PosInf NegInf = NaN"
| "jdiv NegInf PosInf = NaN"
| "jdiv NegInf NegInf = NaN"

text \<open>The comparison \<open>a <= b\<close>; every comparison with \<open>NaN\<close> is false.\<close>

fun jle :: "jsnum \<Rightarrow> jsnum \<Rightarrow> bool" where
  "jle (Fin a) (Fin b) = (a \<le> b)"
| "jle NaN y = False"
| "jle x NaN = False"
| "jle NegInf y = True"
| "jle x PosInf = True"
| "jle PosInf y = False"
| "jle x NegInf = False"

text \<open>The comparison \<open>a < b\<close>.\<close>

fun jlt :: "jsnum \<Rightarrow> jsnum \<Rightarrow> bool" where
  "jlt (Fin a) (Fin b) = (a < b)"
| "jlt NaN y = False"
| "jlt x NaN = False"
| "jlt PosInf y = False"
| "jlt x NegInf = False"
| "jlt NegInf y = True"
| "jlt x PosInf = True"

text \<open>\<open>Math.min(a, b)\<close>: \<open>NaN\<close> if either argument is \<open>NaN\<close>.\<close>

fun Math_min :: "jsnum \<Rightarrow> jsnum \<Rightarrow> jsnum" where
  "Math_min NaN y = NaN"
| "Math_min x NaN = NaN"
| "Math_min x y = (if jle x y then x else y)"

subsection \<open>parseFloat\<close>

text \<open>
  \<open>parseFloat\<close> skips leading white space, reads the longest prefix that is a decimal
  literal (sign, digits, fraction, exponent, or \<open>Infinity\<close>) and ignores the rest; with
  no such prefix the result is \<open>NaN\<close>. The result is the double nearest to the number
  the literal denotes. White space is the ASCII white space here.
\<close>

definition isWhite :: "char \<Rightarrow> bool" where
  "isWhite c = (c \<in> set [CHR '' '', CHR 0x09, CHR 0x0A, CHR 0x0B, CHR 0x0C, CHR 0x0D])"

definition isDigit :: "char \<Rightarrow> bool" where
  "isDigit c = (c \<in> set ''0123456789'')"

text \<open>The value of a digit is its place in \<open>0123456789\<close>.\<close>

definition digitVal :: "char \<Rightarrow> nat" where
  "digitVal c = length (takeWhile (\<lambda>d. d \<noteq> c) ''0123456789'')"

definition digitsVal :: "string \<Rightarrow> nat" where
  "digitsVal ds = foldl (\<lambda>acc c. 10 * acc + digitVal c) 0 ds"

text \<open>The exponent part \<open>e\<close>, \<open>e+\<close> or \<open>e-\<close> followed by digits; \<open>0\<close> when there is none.\<close>

definition exponentPart :: "string \<Rightarrow> int" where
  "exponentPart s =
     (case s of
        [] \<Rightarrow> 0
      | c # t \<Rightarrow>
          if c = CHR ''e'' \<or> c = CHR ''E'' then
            (case t of
               [] \<Rightarrow> 0
             | d # u \<Rightarrow>
                 if d = CHR ''-'' then - int (digitsVal (takeWhile isDigit u))
                 else if d = CHR ''+'' then int (digitsVal (takeWhile isDigit u))
                 else int (digitsVal (takeWhile isDigit t)))
          else 0)"

definition scale10 :: "rat \<Rightarrow> int \<Rightarrow> rat" where
  "scale10 m e = (if 0 \<le> e then m * 10 ^ nat e else m / 10 ^ nat (- e))"

definition parseUnsigned :: "string \<Rightarrow> jsnum" where
  "parseUnsigned s =
     (if take 8 s = ''Infinity'' then PosInf
      else
        let ip = takeWhile isDigit s;
            r1 = dropWhile isDigit s;
            fp = (case r1 of [] \<Rightarrow> [] | c # t \<Rightarrow> if c = CHR ''.'' then takeWhile isDigit t else []);
            r2 = (case r1 of [] \<Rightarrow> [] | c # t \<Rightarrow> if c = CHR ''.'' then dropWhile isDigit t else r1)
        in if ip = [] \<and> fp = [] then NaN
           else to_double (scale10 (of_nat (digitsVal ip) + of_nat (digitsVal fp) / 10 ^ length fp)
                             (exponentPart r2)))"

definition parseFloat :: "string \<Rightarrow> jsnum" where
  "parseFloat s =
     (case dropWhile isWhite s of
        [] \<Rightarrow> NaN
      | c # t \<Rightarrow>
          if c = CHR ''-'' then jneg (parseUnsigned t)
          else if c = CHR ''+'' then parseUnsigned t
          else parseUnsigned (c # t))"

section \<open>Data model\<close>

text \<open>
  The interfaces \<open>Budget\<close> (BudgetFormDialog.tsx) and \<open>Goal\<close> (GoalFormDialog.tsx).
  The fields \<open>id\<close> and \<open>emoji\<close> occur in both and \<open>id\<close> is a constant of HOL, so they
  carry the name of their interface.
\<close>

record budget =
  budget_id :: string
  category :: string
  budget_emoji :: string
  spent :: jsnum
  limit :: jsnum
  color :: string

record goal =
  goal_id :: string
  title :: string
  goal_emoji :: string
  saved :: jsnum
  target :: jsnum
  deadline :: string

section \<open>The form dialogs\<close>

subsection \<open>BudgetFormDialog\<close>

text \<open>
  The form state of the budget dialog: the four \<open>useState\<close> strings \<open>category\<close>,
  \<open>emoji\<close>, \<open>limit\<close> and \<open>color\<close>.
\<close>

record budget_form =
  category_input :: string
  emoji_input :: string
  limit_input :: string
  color_input :: string

text \<open>
  \<open>handleSubmit\<close> of the budget dialog builds the budget handed to \<open>onSave\<close>. The
  argument \<open>budget\<close> is the prop of that name (\<open>None\<close> for \<open>null\<close>) and \<open>uuid\<close> is
  the value \<open>crypto.randomUUID()\<close> returns when it is called. An empty string is falsy,
  so \<open>budget?.id || crypto.randomUUID()\<close> takes the fresh identifier for an empty id too.
\<close>

definition budget_handleSubmit :: "budget option \<Rightarrow> budget_form \<Rightarrow> string \<Rightarrow> budget" where
  "budget_handleSubmit budget f uuid =
     \<lparr> budget_id = (case budget of None \<Rightarrow> uuid
                      | Some b \<Rightarrow> if budget_id b \<noteq> [] then budget_id b else uuid),
       category = category_input f,
       budget_emoji = emoji_input f,
       spent = (case budget of None \<Rightarrow> Fin 0 | Some b \<Rightarrow> num_or (spent b) (Fin 0)),
       limit = num_or (parseFloat (limit_input f)) (Fin 0),
       color = color_input f \<rparr>"

text \<open>The submit button of the budget dialog: \<open>disabled={!category || !limit}\<close>.\<close>

definition budget_submit_disabled :: "budget_form \<Rightarrow> bool" where
  "budget_submit_disabled f = (category_input f = [] \<or> limit_input f = [])"

subsection \<open>GoalFormDialog\<close>

record goal_form =
  title_input :: string
  goal_emoji_input :: string
  target_input :: string
  saved_input :: string
  deadline_input :: string

definition goal_handleSubmit :: "goal option \<Rightarrow> goal_form \<Rightarrow> string \<Rightarrow> goal" where
  "goal_handleSubmit goal f uuid =
     \<lparr> goal_id = (case goal of None \<Rightarrow> uuid
                    | Some g \<Rightarrow> if goal_id g \<noteq> [] then goal_id g else uuid),
       title = title_input f,
       goal_emoji = goal_emoji_input f,
       saved = num_or (parseFloat (saved_input f)) (Fin 0),
       target = num_or (parseFloat (target_input f)) (Fin 0),
       deadline = deadline_input f \<rparr>"

text \<open>The submit button of the goal dialog: \<open>disabled={!title || !target || !deadline}\<close>.\<close>

definition goal_submit_disabled :: "goal_form \<Rightarrow> bool" where
  "goal_submit_disabled f = (title_input f = [] \<or> target_input f = [] \<or> deadline_input f = [])"

text \<open>
  What the dialog hands to \<open>onSave\<close> on an attempt to submit: nothing while the submit
  button is disabled, the result of \<open>handleSubmit\<close> otherwise.
\<close>

definition budget_submit :: "budget option \<Rightarrow> budget_form \<Rightarrow> string \<Rightarrow> budget option" where
  "budget_submit budget f uuid =
     (if budget_submit_disabled f then None else Some (budget_handleSubmit budget f uuid))"

definition goal_submit :: "goal option \<Rightarrow> goal_form \<Rightarrow> string \<Rightarrow> goal option" where
  "goal_submit goal f uuid =
     (if goal_submit_disabled f then None else Some (goal_handleSubmit goal f uuid))"

text \<open>
  The constraints the inputs declare. The category, the title and the deadline are
  \<open>required\<close>; the limit and the target are \<open>type="number" required min="0"\<close>; the
  saved amount is \<open>type="number" min="0"\<close>. A number input satisfies its constraints
  when its value is a number that is not below the minimum, and a form passes the
  validation of its dialog when the submit button is enabled and every input satisfies
  its constraints.
\<close>

definition number_input_valid :: "rat \<Rightarrow> string \<Rightarrow> bool" where
  "number_input_valid lo v = (case parseFloat v of Fin r \<Rightarrow> lo \<le> r | _ \<Rightarrow> False)"

definition budget_validation :: "budget_form \<Rightarrow> bool" where
  "budget_validation f =
     (\<not> budget_submit_disabled f \<and> category_input f \<noteq> []
      \<and> limit_input f \<noteq> [] \<and> number_input_valid 0 (limit_input f))"

definition goal_validation :: "goal_form \<Rightarrow> bool" where
  "goal_validation f =
     (\<not> goal_submit_disabled f \<and> title_input f \<noteq> []
      \<and> target_input f \<noteq> [] \<and> number_input_valid 0 (target_input f)
      \<and> (saved_input f = [] \<or> number_input_valid 0 (saved_input f))
      \<and> deadline_input f \<noteq> [])"

subsection \<open>AddSavingsDialog\<close>

text \<open>\<open>currentAmount = parseFloat(amount) || 0\<close>.\<close>

definition currentAmount :: "string \<Rightarrow> jsnum" where
  "currentAmount amount = num_or (parseFloat amount) (Fin 0)"

text \<open>The submit button: \<open>disabled={!amount || currentAmount <= 0}\<close>.\<close>

definition savings_submit_disabled :: "string \<Rightarrow> bool" where
  "savings_submit_disabled amount = (amount = [] \<or> jle (currentAmount amount) (Fin 0))"

text \<open>
  \<open>handleSubmit\<close> of the savings dialog: with a goal and a non-empty amount it calls
  \<open>onSave(goal.id, parseFloat(amount))\<close>; the result is the pair of arguments.
\<close>

definition savings_handleSubmit :: "goal option \<Rightarrow> string \<Rightarrow> (string \<times> jsnum) option" where
  "savings_handleSubmit goal amount =
     (case goal of
        None \<Rightarrow> None
      | Some g \<Rightarrow> if amount \<noteq> [] then Some (goal_id g, parseFloat amount) else None)"

text \<open>The preview bar of the savings dialog, \<open>newPercentage\<close>.\<close>

definition newPercentage :: "goal \<Rightarrow> string \<Rightarrow> jsnum" where
  "newPercentage goal amount =
     Math_min (jmul (jdiv (jadd (saved goal) (currentAmount amount)) (target goal)) (Fin 100))
       (Fin 100)"

section \<open>The budget page\<close>

datatype tab = Budget_tab | Goals_tab

text \<open>
  The state of \<open>BudgetPage\<close>: one field for each \<open>useState\<close>. The notifications
  (\<open>toast.success\<close>) leave the state alone and are not modelled.
\<close>

record page =
  activeTab :: tab
  budgets :: "budget list"
  goals :: "goal list"
  budgetFormOpen :: bool
  editingBudget :: "budget option"
  deleteBudgetOpen :: bool
  budgetToDelete :: "budget option"
  goalFormOpen :: bool
  editingGoal :: "goal option"
  deleteGoalOpen :: bool
  goalToDelete :: "goal option"
  addSavingsOpen :: bool
  goalForSavings :: "goal option"

text \<open>The emoji of the initial data are their UTF-8 bytes.\<close>

definition INITIAL_BUDGETS :: "budget list" where
  "INITIAL_BUDGETS =
     [\<lparr> budget_id = ''1'', category = ''Food & Dining'',
        budget_emoji = [CHR 0xF0, CHR 0x9F, CHR 0x8D, CHR 0x94],
        spent = Fin 12500, limit = Fin 15000, color = ''bg-warning'' \<rparr>,
      \<lparr> budget_id = ''2'', category = ''Transport'',
        budget_emoji = [CHR 0xF0, CHR 0x9F, CHR 0x9A, CHR 0x97],
        spent = Fin 5500, limit = Fin 6000, color = ''bg-info'' \<rparr>,
      \<lparr> budget_id = ''3'', category = ''Shopping'',
        budget_emoji = [CHR 0xF0, CHR 0x9F, CHR 0x9B, CHR 0x8D, CHR 0xEF, CHR 0xB8, CHR 0x8F],
        spent = Fin 8000, limit = Fin 12000, color = ''bg-purple-accent'' \<rparr>,
      \<lparr> budget_id = ''4'', category = ''Entertainment'',
        budget_emoji = [CHR 0xF0, CHR 0x9F, CHR 0x8E, CHR 0xAC],
        spent = Fin 4500, limit = Fin 4000, color = ''bg-destructive'' \<rparr>,
      \<lparr> budget_id = ''5'', category = ''Healthcare'',
        budget_emoji = [CHR 0xF0, CHR 0x9F, CHR 0x92, CHR 0x8A],
        spent = Fin 2000, limit = Fin 5000, color = ''bg-emerald'' \<rparr>]"

definition INITIAL_GOALS :: "goal list" where
  "INITIAL_GOALS =
     [\<lparr> goal_id = ''1'', title = ''Emergency Fund'',
        goal_emoji = [CHR 0xF0, CHR 0x9F, CHR 0x8F, CHR 0xA6],
        saved = Fin 150000, target = Fin 300000, deadline = ''Dec 2026'' \<rparr>,
      \<lparr> goal_id = ''2'', title = ''New Laptop'',
        goal_emoji = [CHR 0xF0, CHR 0x9F, CHR 0x92, CHR 0xBB],
        saved = Fin 45000, target = Fin 80000, deadline = ''Jun 2026'' \<rparr>,
      \<lparr> goal_id = ''3'', title = ''Vacation Trip'',
        goal_emoji = [CHR 0xE2, CHR 0x9C, CHR 0x88, CHR 0xEF, CHR 0xB8, CHR 0x8F],
        saved = Fin 25000, target = Fin 100000, deadline = ''Oct 2026'' \<rparr>]"

definition initial_page :: page where
  "initial_page =
     \<lparr> activeTab = Budget_tab, budgets = INITIAL_BUDGETS, goals = INITIAL_GOALS,
       budgetFormOpen = False, editingBudget = None,
       deleteBudgetOpen = False, budgetToDelete = None,
       goalFormOpen = False, editingGoal = None,
       deleteGoalOpen = False, goalToDelete = None,
       addSavingsOpen = False, goalForSavings = None \<rparr>"

subsection \<open>Budget handlers\<close>

definition handleAddBudget :: "page \<Rightarrow> page" where
  "handleAddBudget s = s\<lparr> editingBudget := None, budgetFormOpen := True \<rparr>"

definition handleEditBudget :: "budget \<Rightarrow> page \<Rightarrow> page" where
  "handleEditBudget budget s = s\<lparr> editingBudget := Some budget, budgetFormOpen := True \<rparr>"

definition handleSaveBudget :: "budget \<Rightarrow> page \<Rightarrow> page" where
  "handleSaveBudget budgetData s =
     (if editingBudget s \<noteq> None
      then s\<lparr> budgets := map (\<lambda>b. if budget_id b = budget_id budgetData then budgetData else b)
                            (budgets s) \<rparr>
      else s\<lparr> budgets := budgets s @ [budgetData] \<rparr>)"

definition handleDeleteBudgetClick :: "budget \<Rightarrow> page \<Rightarrow> page" where
  "handleDeleteBudgetClick budget s = s\<lparr> budgetToDelete := Some budget, deleteBudgetOpen := True \<rparr>"

definition handleConfirmDeleteBudget :: "page \<Rightarrow> page" where
  "handleConfirmDeleteBudget s =
     (case budgetToDelete s of
        None \<Rightarrow> s
      | Some d \<Rightarrow>
          s\<lparr> budgets := filter (\<lambda>b. budget_id b \<noteq> budget_id d) (budgets s),
             budgetToDelete := None, deleteBudgetOpen := False \<rparr>)"

subsection \<open>Goal handlers\<close>

definition handleAddGoal :: "page \<Rightarrow> page" where
  "handleAddGoal s = s\<lparr> editingGoal := None, goalFormOpen := True \<rparr>"

definition handleEditGoal :: "goal \<Rightarrow> page \<Rightarrow> page" where
  "handleEditGoal goal s = s\<lparr> editingGoal := Some goal, goalFormOpen := True \<rparr>"

definition handleSaveGoal :: "goal \<Rightarrow> page \<Rightarrow> page" where
  "handleSaveGoal goalData s =
     (if editingGoal s \<noteq> None
      then s\<lparr> goals := map (\<lambda>g. if goal_id g = goal_id goalData then goalData else g) (goals s) \<rparr>
      else s\<lparr> goals := goals s @ [goalData] \<rparr>)"

definition handleDeleteGoalClick :: "goal \<Rightarrow> page \<Rightarrow> page" where
  "handleDeleteGoalClick goal s = s\<lparr> goalToDelete := Some goal, deleteGoalOpen := True \<rparr>"

definition handleConfirmDeleteGoal :: "page \<Rightarrow> page" where
  "handleConfirmDeleteGoal s =
     (case goalToDelete s of
        None \<Rightarrow> s
      | Some d \<Rightarrow>
          s\<lparr> goals := filter (\<lambda>g. goal_id g \<noteq> goal_id d) (goals s),
             goalToDelete := None, deleteGoalOpen := False \<rparr>)"

definition handleAddSavingsClick :: "goal \<Rightarrow> page \<Rightarrow> page" where
  "handleAddSavingsClick goal s = s\<lparr> goalForSavings := Some goal, addSavingsOpen := True \<rparr>"

definition handleAddSavings :: "string \<Rightarrow> jsnum \<Rightarrow> page \<Rightarrow> page" where
  "handleAddSavings goalId amount s =
     s\<lparr> goals := map (\<lambda>g. if goal_id g = goalId then g\<lparr> saved := jadd (saved g) amount \<rparr> else g)
                     (goals s) \<rparr>"

subsection \<open>Computed values of a render\<close>

text \<open>The four \<open>reduce\<close> calls: a left fold from \<open>0\<close>.\<close>

definition totalBudget :: "page \<Rightarrow> jsnum" where
  "totalBudget s = foldl (\<lambda>sum b. jadd sum (limit b)) (Fin 0) (budgets s)"

definition totalSpent :: "page \<Rightarrow> jsnum" where
  "totalSpent s = foldl (\<lambda>sum b. jadd sum (spent b)) (Fin 0) (budgets s)"

definition totalSaved :: "page \<Rightarrow> jsnum" where
  "totalSaved s = foldl (\<lambda>sum g. jadd sum (saved g)) (Fin 0) (goals s)"

definition totalTarget :: "page \<Rightarrow> jsnum" where
  "totalTarget s = foldl (\<lambda>sum g. jadd sum (target g)) (Fin 0) (goals s)"

text \<open>
  The number in the \<open>width\<close> of each progress fill: the monthly budget bar, the bar of
  one budget, the goals overview bar and the bar of one goal.
\<close>

definition budgetOverviewWidth :: "page \<Rightarrow> jsnum" where
  "budgetOverviewWidth s = Math_min (jmul (jdiv (totalSpent s) (totalBudget s)) (Fin 100)) (Fin 100)"

definition budgetWidth :: "budget \<Rightarrow> jsnum" where
  "budgetWidth budget = Math_min (jmul (jdiv (spent budget) (limit budget)) (Fin 100)) (Fin 100)"

definition goalsOverviewWidth :: "page \<Rightarrow> jsnum" where
  "goalsOverviewWidth s = jmul (jdiv (totalSaved s) (totalTarget s)) (Fin 100)"

definition goalWidth :: "goal \<Rightarrow> jsnum" where
  "goalWidth goal = Math_min (jmul (jdiv (saved goal) (target goal)) (Fin 100)) (Fin 100)"

text \<open>\<open>isComplete = goal.saved >= goal.target\<close>; the savings button shows when it is false.\<close>

definition isComplete :: "goal \<Rightarrow> bool" where
  "isComplete goal = jle (target goal) (saved goal)"

subsection \<open>The dialogs wired to the page\<close>

text \<open>
  The page renders \<open>BudgetFormDialog\<close> with \<open>budget={editingBudget}\<close>,
  \<open>onSave={handleSaveBudget}\<close> and \<open>onOpenChange={setBudgetFormOpen}\<close>, and the other
  two dialogs likewise. An attempt to submit a form runs \<open>onSave\<close> and then
  \<open>onOpenChange(false)\<close>; while the submit button is disabled nothing runs and the page
  stays as it is.
\<close>

definition submitBudgetForm :: "budget_form \<Rightarrow> string \<Rightarrow> page \<Rightarrow> page" where
  "submitBudgetForm f uuid s =
     (case budget_submit (editingBudget s) f uuid of
        None \<Rightarrow> s
      | Some budgetData \<Rightarrow> (handleSaveBudget budgetData s)\<lparr> budgetFormOpen := False \<rparr>)"

definition submitGoalForm :: "goal_form \<Rightarrow> string \<Rightarrow> page \<Rightarrow> page" where
  "submitGoalForm f uuid s =
     (case goal_submit (editingGoal s) f uuid of
        None \<Rightarrow> s
      | Some goalData \<Rightarrow> (handleSaveGoal goalData s)\<lparr> goalFormOpen := False \<rparr>)"

definition submitAddSavings :: "string \<Rightarrow> page \<Rightarrow> page" where
  "submitAddSavings amount s =
     (if savings_submit_disabled amount then s
      else (case savings_handleSubmit (goalForSavings s) amount of
              None \<Rightarrow> s
            | Some (goalId, a) \<Rightarrow> (handleAddSavings goalId a s)\<lparr> addSavingsOpen := False \<rparr>))"

subsection \<open>Events of the rendered page\<close>

text \<open>
  What a user can do on the rendered page. A card and its buttons exist only for an
  entry of the current list on the active tab, the savings button only for a goal that
  is not complete, a dialog only while it is open, and the savings dialog only with a
  goal. The forms' own fields are the user's to fill, so a submit carries them; it also
  carries the string \<open>crypto.randomUUID()\<close> would return, 36 characters long. The
  constraints the inputs declare (\<open>required\<close>, \<open>min\<close>) can only take submit events
  away.
\<close>

datatype event =
    SetActiveTab tab
  | HeaderAddClick
  | EmptyStateAddBudgetClick
  | EmptyStateAddGoalClick
  | EditBudgetClick budget
  | DeleteBudgetClick budget
  | BudgetFormSubmit budget_form string
  | BudgetFormOpenChange bool
  | DeleteBudgetConfirm
  | DeleteBudgetOpenChange bool
  | EditGoalClick goal
  | DeleteGoalClick goal
  | AddSavingsClick goal
  | GoalFormSubmit goal_form string
  | GoalFormOpenChange bool
  | DeleteGoalConfirm
  | DeleteGoalOpenChange bool
  | AddSavingsSubmit string
  | AddSavingsOpenChange bool

definition randomUUID_result :: "string \<Rightarrow> bool" where
  "randomUUID_result u = (length u = 36)"

fun step :: "event \<Rightarrow> page \<Rightarrow> page option" where
  "step (SetActiveTab t) s = Some (s\<lparr> activeTab := t \<rparr>)"
| "step HeaderAddClick s =
     Some (if activeTab s = Budget_tab then handleAddBudget s else handleAddGoal s)"
| "step EmptyStateAddBudgetClick s =
     (if activeTab s = Budget_tab \<and> budgets s = [] then Some (handleAddBudget s) else None)"
| "step EmptyStateAddGoalClick s =
     (if activeTab s = Goals_tab \<and> goals s = [] then Some (handleAddGoal s) else None)"
| "step (EditBudgetClick b) s =
     (if activeTab s = Budget_tab \<and> b \<in> set (budgets s) then Some (handleEditBudget b s) else None)"
| "step (DeleteBudgetClick b) s =
     (if activeTab s = Budget_tab \<and> b \<in> set (budgets s)
      then Some (handleDeleteBudgetClick b s) else None)"
| "step (BudgetFormSubmit f uuid) s =
     (if budgetFormOpen s \<and> randomUUID_result uuid then Some (submitBudgetForm f uuid s) else None)"
| "step (BudgetFormOpenChange b) s = Some (s\<lparr> budgetFormOpen := b \<rparr>)"
| "step DeleteBudgetConfirm s =
     (if deleteBudgetOpen s then Some (handleConfirmDeleteBudget s) else None)"
| "step (DeleteBudgetOpenChange b) s = Some (s\<lparr> deleteBudgetOpen := b \<rparr>)"
| "step (EditGoalClick g) s =
     (if activeTab s = Goals_tab \<and> g \<in> set (goals s) then Some (handleEditGoal g s) else None)"
| "step (DeleteGoalClick g) s =
     (if activeTab s = Goals_tab \<and> g \<in> set (goals s)
      then Some (handleDeleteGoalClick g s) else None)"
| "step (AddSavingsClick g) s =
     (if activeTab s = Goals_tab \<and> g \<in> set (goals s) \<and> \<not> isComplete g
      then Some (handleAddSavingsClick g s) else None)"
| "step (GoalFormSubmit f uuid) s =
     (if goalFormOpen s \<and> randomUUID_result uuid then Some (submitGoalForm f uuid s) else None)"
| "step (GoalFormOpenChange b) s = Some (s\<lparr> goalFormOpen := b \<rparr>)"
| "step DeleteGoalConfirm s =
     (if deleteGoalOpen s then Some (handleConfirmDeleteGoal s) else None)"
| "step (DeleteGoalOpenChange b) s = Some (s\<lparr> deleteGoalOpen := b \<rparr>)"
| "step (AddSavingsSubmit amount) s =
     (if addSavingsOpen s \<and> goalForSavings s \<noteq> None then Some (submitAddSavings amount s) else None)"
| "step (AddSavingsOpenChange b) s = Some (s\<lparr> addSavingsOpen := b \<rparr>)"

text \<open>A run of events from a state; \<open>None\<close> when one of them is not possible.\<close>

fun run :: "event list \<Rightarrow> page \<Rightarrow> page option" where
  "run [] s = Some s"
| "run (e # es) s = (case step e s of None \<Rightarrow> None | Some s' \<Rightarrow> run es s')"

inductive reachable :: "page \<Rightarrow> bool" where
  reachable_init: "reachable initial_page"
| reachable_step: "reachable s \<Longrightarrow> step e s = Some s' \<Longrightarrow> reachable s'"

section \<open>Example states\<close>

text \<open>The initial page with the second budget and the third goal picked for deletion.\<close>

definition delete_example :: page where
  "delete_example =
     initial_page\<lparr> budgetToDelete := Some (INITIAL_BUDGETS ! 1), deleteBudgetOpen := True,
                   goalToDelete := Some (INITIAL_GOALS ! 2), deleteGoalOpen := True \<rparr>"

text \<open>
  The initial page with the budget ``Transport'' and the goal ``Emergency Fund'' open
  in their edit dialogs, and what the dialogs hand over after the limit and the target
  were raised.
\<close>

definition edit_example :: page where
  "edit_example =
     initial_page\<lparr> editingBudget := Some (INITIAL_BUDGETS ! 1), budgetFormOpen := True,
                   editingGoal := Some (INITIAL_GOALS ! 0), goalFormOpen := True \<rparr>"

definition edited_budget :: budget where
  "edited_budget = (INITIAL_BUDGETS ! 1)\<lparr> limit := Fin 7000 \<rparr>"

definition edited_goal :: goal where
  "edited_goal = (INITIAL_GOALS ! 0)\<lparr> target := Fin 350000 \<rparr>"

text \<open>
  The initial page after the add button of the header, a filled budget form and an
  identifier as \<open>crypto.randomUUID()\<close> returns them.
\<close>

definition create_example :: page where
  "create_example = handleAddBudget initial_page"

definition new_budget_form :: budget_form where
  "new_budget_form =
     \<lparr> category_input = ''Rent'', emoji_input = [CHR 0xF0, CHR 0x9F, CHR 0x8F, CHR 0xA0],
       limit_input = ''20000'', color_input = ''bg-info'' \<rparr>"

definition example_uuid :: string where
  "example_uuid = ''123e4567-e89b-42d3-a456-426614174000''"

section \<open>Properties of the lists\<close>

text \<open>The ids of each list are pairwise distinct.\<close>

definition ids_unique :: "page \<Rightarrow> bool" where
  "ids_unique s = (distinct (map budget_id (budgets s)) \<and> distinct (map goal_id (goals s)))"

text \<open>
  The identifier generated for a new entry does not occur in its list yet. Only the
  submit of a form with nothing being edited creates an entry.
\<close>

fun generated_id_fresh :: "event \<Rightarrow> page \<Rightarrow> bool" where
  "generated_id_fresh (BudgetFormSubmit f uuid) s =
     (editingBudget s = None \<longrightarrow> uuid \<notin> set (map budget_id (budgets s)))"
| "generated_id_fresh (GoalFormSubmit f uuid) s =
     (editingGoal s = None \<longrightarrow> uuid \<notin> set (map goal_id (goals s)))"
| "generated_id_fresh e s = True"

text \<open>
  A budget as the page holds it: its id is not empty and its \<open>spent\<close> is a number. The
  budgets of the list and the budget being edited are of this kind on every page reached
  from the initial one.
\<close>

definition budget_ok :: "budget \<Rightarrow> bool" where
  "budget_ok b = (budget_id b \<noteq> [] \<and> spent b \<noteq> NaN)"

definition budgets_ok :: "page \<Rightarrow> bool" where
  "budgets_ok s =
     (list_all budget_ok (budgets s)
      \<and> (case editingBudget s of None \<Rightarrow> True | Some b \<Rightarrow> budget_ok b))"

text \<open>The item picked for deletion has an id of its list.\<close>

definition delete_target_listed :: "page \<Rightarrow> bool" where
  "delete_target_listed s =
     ((case budgetToDelete s of
         None \<Rightarrow> True | Some d \<Rightarrow> budget_id d \<in> set (map budget_id (budgets s)))
      \<and> (case goalToDelete s of
            None \<Rightarrow> True | Some d \<Rightarrow> goal_id d \<in> set (map goal_id (goals s))))"

text \<open>The initial page with the budget ``Transport'' open in its edit dialog.\<close>

definition edit_budget_example :: page where
  "edit_budget_example = handleEditBudget (INITIAL_BUDGETS ! 1) initial_page"

text \<open>The budget form and the goal form of a new entry with the number \<open>0\<close> typed in.\<close>

definition zero_limit_form :: budget_form where
  "zero_limit_form = new_budget_form\<lparr> limit_input := ''0'' \<rparr>"

definition new_goal_form :: goal_form where
  "new_goal_form =
     \<lparr> title_input = ''Bicycle'', goal_emoji_input = [CHR 0xF0, CHR 0x9F, CHR 0x8E, CHR 0xAF],
       target_input = ''30000'', saved_input = ''0'', deadline_input = ''Mar 2027'' \<rparr>"

definition zero_target_form :: goal_form where
  "zero_target_form = new_goal_form\<lparr> target_input := ''0'' \<rparr>"

text \<open>The budget form with the limit left empty, the goal form with the deadline left empty.\<close>

definition empty_limit_form :: budget_form where
  "empty_limit_form = new_budget_form\<lparr> limit_input := [] \<rparr>"

definition empty_deadline_form :: goal_form where
  "empty_deadline_form = new_goal_form\<lparr> deadline_input := [] \<rparr>"

text \<open>
  Three runs from the initial page: a million rupees added to the goal ``Emergency
  Fund''; every budget deleted, one after the other; every goal deleted.
\<close>

definition add_million :: "event list" where
  "add_million =
     [SetActiveTab Goals_tab, AddSavingsClick (INITIAL_GOALS ! 0), AddSavingsSubmit ''1000000'']"

definition delete_all_budgets :: "event list" where
  "delete_all_budgets = concat (map (\<lambda>b. [DeleteBudgetClick b, DeleteBudgetConfirm]) INITIAL_BUDGETS)"

definition delete_all_goals :: "event list" where
  "delete_all_goals =
     SetActiveTab Goals_tab # concat (map (\<lambda>g. [DeleteGoalClick g, DeleteGoalConfirm]) INITIAL_GOALS)"

text \<open>The pages these runs end in.\<close>

definition after_add_million :: page where
  "after_add_million =
     initial_page\<lparr> activeTab := Goals_tab,
                   goals := (INITIAL_GOALS ! 0)\<lparr> saved := Fin 1150000 \<rparr> # tl INITIAL_GOALS,
                   goalForSavings := Some (INITIAL_GOALS ! 0) \<rparr>"

definition no_budgets_page :: page where
  "no_budgets_page = initial_page\<lparr> budgets := [] \<rparr>"

definition no_goals_page :: page where
  "no_goals_page = initial_page\<lparr> activeTab := Goals_tab, goals := [] \<rparr>"

text \<open>
  A run that meets the rounding of \<open>+\<close>. The goal ``Emergency Fund'' is edited to a
  saved amount of \<open>2 ^ 53\<close> and a target of \<open>2 ^ 54\<close>, and one rupee is added to it.
\<close>

definition large_saved_form :: goal_form where
  "large_saved_form =
     \<lparr> title_input = ''Emergency Fund'', goal_emoji_input = [CHR 0xF0, CHR 0x9F, CHR 0x8F, CHR 0xA6],
       target_input = ''18014398509481984'', saved_input = ''9007199254740992'',
       deadline_input = ''Dec 2026'' \<rparr>"

definition large_saved_goal :: goal where
  "large_saved_goal =
     \<lparr> goal_id = ''1'', title = ''Emergency Fund'',
       goal_emoji = [CHR 0xF0, CHR 0x9F, CHR 0x8F, CHR 0xA6],
       saved = Fin 9007199254740992, target = Fin 18014398509481984, deadline = ''Dec 2026'' \<rparr>"

definition edit_to_large_saved :: "event list" where
  "edit_to_large_saved =
     [SetActiveTab Goals_tab, EditGoalClick (INITIAL_GOALS ! 0),
      GoalFormSubmit large_saved_form example_uuid, AddSavingsClick large_saved_goal]"

definition large_saved_page :: page where
  "large_saved_page =
     initial_page\<lparr> activeTab := Goals_tab, goals := large_saved_goal # tl INITIAL_GOALS,
                   editingGoal := Some (INITIAL_GOALS ! 0),
                   addSavingsOpen := True, goalForSavings := Some large_saved_goal \<rparr>"

text \<open>
  A run that meets the rounding of the totals: two goals are created, one with the
  target \<open>2 ^ 53\<close> and one with the target \<open>1\<close>.
\<close>

definition large_target_form :: goal_form where
  "large_target_form =
     \<lparr> title_input = ''House'', goal_emoji_input = [CHR 0xF0, CHR 0x9F, CHR 0x8F, CHR 0xA0],
       target_input = ''9007199254740992'', saved_input = ''0'', deadline_input = ''Jan 2040'' \<rparr>"

definition one_rupee_form :: goal_form where
  "one_rupee_form =
     \<lparr> title_input = ''Sweet'', goal_emoji_input = [CHR 0xF0, CHR 0x9F, CHR 0x8E, CHR 0x81],
       target_input = ''1'', saved_input = ''0'', deadline_input = ''Jan 2027'' \<rparr>"

definition second_uuid :: string where
  "second_uuid = ''9b2f1c1e-7d43-4c59-8a0e-5f3b6d2a1c77''"

definition create_two_goals :: "event list" where
  "create_two_goals =
     [SetActiveTab Goals_tab, HeaderAddClick, GoalFormSubmit large_target_form example_uuid,
      HeaderAddClick, GoalFormSubmit one_rupee_form second_uuid]"

definition five_goals_page :: page where
  "five_goals_page =
     initial_page\<lparr> activeTab := Goals_tab,
                   goals := INITIAL_GOALS
                     @ [goal_handleSubmit None large_target_form example_uuid,
                        goal_handleSubmit None one_rupee_form second_uuid] \<rparr>"

section \<open>Rounding\<close>

text \<open>The floor of a quotient of two numerals is their integer quotient.\<close>

lemma floor_numeral_div: "\<lfloor>(numeral a :: rat) / numeral b\<rfloor> = numeral a div numeral b"
  using floor_divide_of_int_eq [of "numeral a" "numeral b", where ?'a = rat] by simp

text \<open>The equations that compute the double nearest to a given rational number.\<close>

lemmas to_double_compute = to_double_def ulp_exp_def scale2_def round_half_even_def Let_def
  ulp_down.simps ulp_up.simps floor_numeral_div

lemma round_half_even_of_int: "round_half_even (of_int n) = n"
  by (simp add: round_half_even_def)

lemma scale2_back: "scale2 (scale2 x (int k)) (- int k) = x"
  by (simp add: scale2_def)

lemma scale2_of_int: "scale2 (of_int n) (int k) = of_int (n * 2 ^ k)"
  by (simp add: scale2_def)

text \<open>
  An integer of absolute value at most \<open>2 ^ 53\<close> is a double: rounding leaves it alone.
  So sums, products and parsed literals that are such integers are exact.
\<close>

lemma to_double_of_int:
  assumes "\<bar>n\<bar> \<le> 2 ^ 53"
  shows "to_double (of_int n) = Fin (of_int n)"
proof (cases "\<bar>n\<bar> = 2 ^ 53")
  case True
  then consider "n = 9007199254740992" | "n = - 9007199254740992" by fastforce
  then show ?thesis
  proof cases
    case 1
    show ?thesis unfolding 1 by (simp add: to_double_compute)
  next
    case 2
    show ?thesis unfolding 2 by (simp add: to_double_compute)
  qed
next
  case False
  with assms have small: "\<bar>n\<bar> < 2 ^ 53" by simp
  show ?thesis
  proof (cases "n = 0")
    case True
    then show ?thesis by (simp add: to_double_def)
  next
    case False
    define a :: rat where "a = \<bar>of_int n\<bar>"
    define m where "m = \<bar>n\<bar>"
    define k where "k = ulp_up 0 a"
    have am: "a = of_int m" by (simp add: a_def m_def)
    from small have "m < 2 ^ 53" by (simp add: m_def)
    then have "(of_int m :: rat) < of_int (2 ^ 53)" by (simp only: of_int_less_iff)
    then have lt: "a < 2 ^ 53" by (simp add: am)
    then have p: "ulp_exp a = - int k"
      by (simp add: ulp_exp_def k_def)
    have "scale2 a (int k) = of_int (m * 2 ^ k)"
      unfolding am by (rule scale2_of_int)
    then have "of_int (round_half_even (scale2 a (int k))) = scale2 a (int k)"
      by (simp only: round_half_even_of_int)
    then have r: "scale2 (of_int (round_half_even (scale2 a (int k)))) (- int k) = a"
      by (simp only: scale2_back)
    from lt have "a < 2 ^ 1024" by (rule less_trans) simp
    then have nb: "(2 ^ 1024 \<le> a) = False" by simp
    from False have nz: "((of_int n :: rat) = 0) = False" by simp
    have "to_double (of_int n) = Fin (if (of_int n :: rat) < 0 then - a else a)"
      by (simp only: to_double_def Let_def a_def [symmetric] p minus_minus r nb nz if_False)
    also have "(if (of_int n :: rat) < 0 then - a else a) = of_int n"
      by (simp add: a_def)
    finally show ?thesis .
  qed
qed

lemma to_double_numeral [simp]:
  "numeral k \<le> (9007199254740992 :: int) \<Longrightarrow> to_double (numeral k) = Fin (numeral k)"
  using to_double_of_int [of "numeral k"] by simp

lemma to_double_zero_one [simp]: "to_double 0 = Fin 0" "to_double 1 = Fin 1"
  using to_double_of_int [of 0] to_double_of_int [of 1] by simp_all

lemma jadd_ints:
  "\<bar>a + b\<bar> \<le> 2 ^ 53 \<Longrightarrow> jadd (Fin (of_int a)) (Fin (of_int b)) = Fin (of_int (a + b))"
  using to_double_of_int [of "a + b"] by simp

text \<open>Some strings \<open>parseFloat\<close> reads.\<close>

lemmas parseFloat_defs = parseFloat_def parseUnsigned_def isWhite_def isDigit_def digitsVal_def
  digitVal_def exponentPart_def scale10_def

lemma parse_examples:
  "parseFloat ''0'' = Fin 0" "parseFloat ''1'' = Fin 1" "parseFloat ''20000'' = Fin 20000"
  "parseFloat ''30000'' = Fin 30000" "parseFloat ''1000000'' = Fin 1000000"
  "parseFloat ''9007199254740992'' = Fin 9007199254740992"
  by (simp_all add: parseFloat_defs)

lemma parse_two_to_54: "parseFloat ''18014398509481984'' = Fin 18014398509481984"
  by (simp add: parseFloat_defs to_double_compute)

section \<open>Lists keyed by id\<close>

text \<open>
  Filtering out a key that occurs once splits the list around the one entry that holds it.
\<close>

lemma filter_out_unique_key:
  assumes "distinct (map f xs)" and "k \<in> set (map f xs)"
  shows "\<exists>ys e zs. xs = ys @ e # zs \<and> f e = k \<and> filter (\<lambda>x. f x \<noteq> k) xs = ys @ zs
           \<and> (\<forall>x\<in>set (ys @ zs). f x \<noteq> k)"
proof -
  from assms(2) obtain e where e: "e \<in> set xs" "f e = k" by auto
  then obtain ys zs where xs: "xs = ys @ e # zs" by (auto dest: split_list)
  from assms(1) have others: "\<forall>x\<in>set (ys @ zs). f x \<noteq> k"
    unfolding xs using e(2) by (auto simp: image_iff)
  then have "filter (\<lambda>x. f x \<noteq> k) ys = ys" and "filter (\<lambda>x. f x \<noteq> k) zs = zs"
    by (simp_all add: filter_id_conv)
  then have "filter (\<lambda>x. f x \<noteq> k) xs = ys @ zs"
    unfolding xs using e(2) by simp
  with xs e(2) others show ?thesis by blast
qed

text \<open>Replacing entries by one with the same key, or updating them in place, keeps the keys.\<close>

lemma replace_keeps_keys:
  "map f (map (\<lambda>x. if f x = f d then d else x) xs) = map f xs"
  by (induction xs) auto

lemma update_keeps_keys:
  assumes "\<And>x. f (g x) = f x"
  shows "map f (map (\<lambda>x. if f x = k then g x else x) xs) = map f xs"
  using assms by (induction xs) auto

lemma replace_unique_key:
  assumes "distinct (map f xs)" and "f d \<in> set (map f xs)"
  shows "\<exists>ys e zs. xs = ys @ e # zs \<and> f e = f d
           \<and> map (\<lambda>x. if f x = f d then d else x) xs = ys @ d # zs"
proof -
  from assms(2) obtain e where e: "e \<in> set xs" "f e = f d" by auto
  then obtain ys zs where xs: "xs = ys @ e # zs" by (auto dest: split_list)
  from assms(1) have others: "\<forall>x\<in>set (ys @ zs). f x \<noteq> f d"
    unfolding xs using e(2) by (auto simp: image_iff)
  then have "map (\<lambda>x. if f x = f d then d else x) ys = ys"
    and "map (\<lambda>x. if f x = f d then d else x) zs = zs"
    by (simp_all add: map_idI)
  then have "map (\<lambda>x. if f x = f d then d else x) xs = ys @ d # zs"
    unfolding xs using e(2) by simp
  with xs e(2) show ?thesis by blast
qed

section \<open>Deleting\<close>

text \<open>
  C1. Confirming a deletion removes exactly one entry. With pairwise distinct ids in the
  list and an item to delete whose id occurs in the list (the item is picked from a card
  of the list), the list is \<open>xs @ e # ys\<close> where \<open>e\<close> carries the id of the item, the
  list after \<open>handleConfirmDeleteBudget\<close> is \<open>xs @ ys\<close>, and no entry that stays has
  that id: one entry is gone, the others are unchanged and in order. The same holds for
  goals and \<open>handleConfirmDeleteGoal\<close>.
\<close>

theorem confirm_delete_removes_exactly_one:
  "(distinct (map budget_id (budgets s)) \<and> budgetToDelete s = Some item
      \<and> budget_id item \<in> set (map budget_id (budgets s))
    \<longrightarrow> (\<exists>xs e ys. budgets s = xs @ e # ys \<and> budget_id e = budget_id item
           \<and> budgets (handleConfirmDeleteBudget s) = xs @ ys
           \<and> (\<forall>b\<in>set (xs @ ys). budget_id b \<noteq> budget_id item)))
   \<and> (distinct (map goal_id (goals s)) \<and> goalToDelete s = Some gitem
      \<and> goal_id gitem \<in> set (map goal_id (goals s))
    \<longrightarrow> (\<exists>xs e ys. goals s = xs @ e # ys \<and> goal_id e = goal_id gitem
           \<and> goals (handleConfirmDeleteGoal s) = xs @ ys
           \<and> (\<forall>g\<in>set (xs @ ys). goal_id g \<noteq> goal_id gitem)))"
proof (intro conjI impI)
  assume h: "distinct (map budget_id (budgets s)) \<and> budgetToDelete s = Some item
      \<and> budget_id item \<in> set (map budget_id (budgets s))"
  then have "budgets (handleConfirmDeleteBudget s)
               = filter (\<lambda>b. budget_id b \<noteq> budget_id item) (budgets s)"
    by (simp add: handleConfirmDeleteBudget_def)
  with filter_out_unique_key [of budget_id "budgets s" "budget_id item"] h
  show "\<exists>xs e ys. budgets s = xs @ e # ys \<and> budget_id e = budget_id item
           \<and> budgets (handleConfirmDeleteBudget s) = xs @ ys
           \<and> (\<forall>b\<in>set (xs @ ys). budget_id b \<noteq> budget_id item)"
    by simp
next
  assume h: "distinct (map goal_id (goals s)) \<and> goalToDelete s = Some gitem
      \<and> goal_id gitem \<in> set (map goal_id (goals s))"
  then have "goals (handleConfirmDeleteGoal s)
               = filter (\<lambda>g. goal_id g \<noteq> goal_id gitem) (goals s)"
    by (simp add: handleConfirmDeleteGoal_def)
  with filter_out_unique_key [of goal_id "goals s" "goal_id gitem"] h
  show "\<exists>xs e ys. goals s = xs @ e # ys \<and> goal_id e = goal_id gitem
           \<and> goals (handleConfirmDeleteGoal s) = xs @ ys
           \<and> (\<forall>g\<in>set (xs @ ys). goal_id g \<noteq> goal_id gitem)"
    by simp
qed

text \<open>
  On the initial page, with the budget ``Transport'' and the goal ``Vacation Trip''
  picked for deletion.
\<close>

theorem confirm_delete_removes_exactly_one_witness:
  "(distinct (map budget_id (budgets delete_example))
    \<and> budgetToDelete delete_example = Some (INITIAL_BUDGETS ! 1)
    \<and> budget_id (INITIAL_BUDGETS ! 1) \<in> set (map budget_id (budgets delete_example))
    \<and> (\<exists>xs e ys. budgets delete_example = xs @ e # ys
           \<and> budget_id e = budget_id (INITIAL_BUDGETS ! 1)
           \<and> budgets (handleConfirmDeleteBudget delete_example) = xs @ ys
           \<and> (\<forall>b\<in>set (xs @ ys). budget_id b \<noteq> budget_id (INITIAL_BUDGETS ! 1))))
   \<and> (distinct (map goal_id (goals delete_example))
    \<and> goalToDelete delete_example = Some (INITIAL_GOALS ! 2)
    \<and> goal_id (INITIAL_GOALS ! 2) \<in> set (map goal_id (goals delete_example))
    \<and> (\<exists>xs e ys. goals delete_example = xs @ e # ys
           \<and> goal_id e = goal_id (INITIAL_GOALS ! 2)
           \<and> goals (handleConfirmDeleteGoal delete_example) = xs @ ys
           \<and> (\<forall>g\<in>set (xs @ ys). goal_id g \<noteq> goal_id (INITIAL_GOALS ! 2))))"
proof -
  have b: "distinct (map budget_id (budgets delete_example))
    \<and> budgetToDelete delete_example = Some (INITIAL_BUDGETS ! 1)
    \<and> budget_id (INITIAL_BUDGETS ! 1) \<in> set (map budget_id (budgets delete_example))"
    by (simp add: delete_example_def initial_page_def INITIAL_BUDGETS_def)
  have g: "distinct (map goal_id (goals delete_example))
    \<and> goalToDelete delete_example = Some (INITIAL_GOALS ! 2)
    \<and> goal_id (INITIAL_GOALS ! 2) \<in> set (map goal_id (goals delete_example))"
    by (simp add: delete_example_def initial_page_def INITIAL_GOALS_def)
  from b g confirm_delete_removes_exactly_one
         [of delete_example "INITIAL_BUDGETS ! 1" "INITIAL_GOALS ! 2"]
  show ?thesis by blast
qed

section \<open>Saving an edit\<close>

lemma handleSaveBudget_edit:
  "editingBudget s \<noteq> None \<Longrightarrow>
   budgets (handleSaveBudget d s) = map (\<lambda>b. if budget_id b = budget_id d then d else b) (budgets s)"
  by (simp add: handleSaveBudget_def)

lemma handleSaveGoal_edit:
  "editingGoal s \<noteq> None \<Longrightarrow>
   goals (handleSaveGoal d s) = map (\<lambda>g. if goal_id g = goal_id d then d else g) (goals s)"
  by (simp add: handleSaveGoal_def)

text \<open>
  C2. Saving an edit replaces by id. While an entry is being edited, \<open>handleSaveBudget\<close>
  yields a list of the same length with the same ids at the same positions; at each
  position the entry is the new item where the id is that of the new item and the old
  entry elsewhere. With pairwise distinct ids and the id of the new item in the list, the
  list \<open>xs @ e # ys\<close> around the entry \<open>e\<close> with that id becomes \<open>xs @ d # ys\<close>. The same
  holds for goals and \<open>handleSaveGoal\<close>.
\<close>

theorem save_edit_replaces_by_id:
  "(editingBudget s \<noteq> None \<longrightarrow>
      length (budgets (handleSaveBudget d s)) = length (budgets s)
    \<and> map budget_id (budgets (handleSaveBudget d s)) = map budget_id (budgets s)
    \<and> (\<forall>i<length (budgets s).
          budgets (handleSaveBudget d s) ! i
            = (if budget_id (budgets s ! i) = budget_id d then d else budgets s ! i))
    \<and> (distinct (map budget_id (budgets s)) \<and> budget_id d \<in> set (map budget_id (budgets s))
        \<longrightarrow> (\<exists>xs e ys. budgets s = xs @ e # ys \<and> budget_id e = budget_id d
               \<and> budgets (handleSaveBudget d s) = xs @ d # ys)))
   \<and> (editingGoal s \<noteq> None \<longrightarrow>
      length (goals (handleSaveGoal gd s)) = length (goals s)
    \<and> map goal_id (goals (handleSaveGoal gd s)) = map goal_id (goals s)
    \<and> (\<forall>i<length (goals s).
          goals (handleSaveGoal gd s) ! i
            = (if goal_id (goals s ! i) = goal_id gd then gd else goals s ! i))
    \<and> (distinct (map goal_id (goals s)) \<and> goal_id gd \<in> set (map goal_id (goals s))
        \<longrightarrow> (\<exists>xs e ys. goals s = xs @ e # ys \<and> goal_id e = goal_id gd
               \<and> goals (handleSaveGoal gd s) = xs @ gd # ys)))"
proof (intro conjI impI)
  assume e: "editingBudget s \<noteq> None"
  note eq = handleSaveBudget_edit [OF e, of d]
  show "length (budgets (handleSaveBudget d s)) = length (budgets s)"
    by (simp add: eq)
  show "map budget_id (budgets (handleSaveBudget d s)) = map budget_id (budgets s)"
    unfolding eq by (rule replace_keeps_keys)
  show "\<forall>i<length (budgets s).
          budgets (handleSaveBudget d s) ! i
            = (if budget_id (budgets s ! i) = budget_id d then d else budgets s ! i)"
    by (simp add: eq)
  assume "distinct (map budget_id (budgets s)) \<and> budget_id d \<in> set (map budget_id (budgets s))"
  then show "\<exists>xs e ys. budgets s = xs @ e # ys \<and> budget_id e = budget_id d
               \<and> budgets (handleSaveBudget d s) = xs @ d # ys"
    unfolding eq using replace_unique_key [of budget_id "budgets s" d] by simp
next
  assume e: "editingGoal s \<noteq> None"
  note eq = handleSaveGoal_edit [OF e, of gd]
  show "length (goals (handleSaveGoal gd s)) = length (goals s)"
    by (simp add: eq)
  show "map goal_id (goals (handleSaveGoal gd s)) = map goal_id (goals s)"
    unfolding eq by (rule replace_keeps_keys)
  show "\<forall>i<length (goals s).
          goals (handleSaveGoal gd s) ! i
            = (if goal_id (goals s ! i) = goal_id gd then gd else goals s ! i)"
    by (simp add: eq)
  assume "distinct (map goal_id (goals s)) \<and> goal_id gd \<in> set (map goal_id (goals s))"
  then show "\<exists>xs e ys. goals s = xs @ e # ys \<and> goal_id e = goal_id gd
               \<and> goals (handleSaveGoal gd s) = xs @ gd # ys"
    unfolding eq using replace_unique_key [of goal_id "goals s" gd] by simp
qed

text \<open>On the initial page, saving the raised limit of ``Transport'' and the raised target of
  ``Emergency Fund''.\<close>

theorem save_edit_replaces_by_id_witness:
  "(editingBudget edit_example \<noteq> None
    \<and> distinct (map budget_id (budgets edit_example))
    \<and> budget_id edited_budget \<in> set (map budget_id (budgets edit_example))
    \<and> length (budgets (handleSaveBudget edited_budget edit_example)) = length (budgets edit_example)
    \<and> map budget_id (budgets (handleSaveBudget edited_budget edit_example))
         = map budget_id (budgets edit_example)
    \<and> 1 < length (budgets edit_example)
    \<and> budget_id (budgets edit_example ! 1) = budget_id edited_budget
    \<and> budgets (handleSaveBudget edited_budget edit_example) ! 1 = edited_budget
    \<and> budget_id (budgets edit_example ! 0) \<noteq> budget_id edited_budget
    \<and> budgets (handleSaveBudget edited_budget edit_example) ! 0 = budgets edit_example ! 0
    \<and> (\<exists>xs e ys. budgets edit_example = xs @ e # ys \<and> budget_id e = budget_id edited_budget
             \<and> budgets (handleSaveBudget edited_budget edit_example) = xs @ edited_budget # ys))
   \<and> (editingGoal edit_example \<noteq> None
    \<and> distinct (map goal_id (goals edit_example))
    \<and> goal_id edited_goal \<in> set (map goal_id (goals edit_example))
    \<and> length (goals (handleSaveGoal edited_goal edit_example)) = length (goals edit_example)
    \<and> map goal_id (goals (handleSaveGoal edited_goal edit_example))
         = map goal_id (goals edit_example)
    \<and> 1 < length (goals edit_example)
    \<and> goal_id (goals edit_example ! 0) = goal_id edited_goal
    \<and> goals (handleSaveGoal edited_goal edit_example) ! 0 = edited_goal
    \<and> goal_id (goals edit_example ! 1) \<noteq> goal_id edited_goal
    \<and> goals (handleSaveGoal edited_goal edit_example) ! 1 = goals edit_example ! 1
    \<and> (\<exists>xs e ys. goals edit_example = xs @ e # ys \<and> goal_id e = goal_id edited_goal
             \<and> goals (handleSaveGoal edited_goal edit_example) = xs @ edited_goal # ys))"
proof -
  have b: "editingBudget edit_example \<noteq> None"
    "distinct (map budget_id (budgets edit_example))"
    "budget_id edited_budget \<in> set (map budget_id (budgets edit_example))"
    "1 < length (budgets edit_example)"
    "budget_id (budgets edit_example ! 1) = budget_id edited_budget"
    "budget_id (budgets edit_example ! 0) \<noteq> budget_id edited_budget"
    by (simp_all add: edit_example_def edited_budget_def initial_page_def INITIAL_BUDGETS_def)
  have g: "editingGoal edit_example \<noteq> None"
    "distinct (map goal_id (goals edit_example))"
    "goal_id edited_goal \<in> set (map goal_id (goals edit_example))"
    "1 < length (goals edit_example)"
    "goal_id (goals edit_example ! 0) = goal_id edited_goal"
    "goal_id (goals edit_example ! 1) \<noteq> goal_id edited_goal"
    by (simp_all add: edit_example_def edited_goal_def initial_page_def INITIAL_GOALS_def)
  note t = save_edit_replaces_by_id [of edit_example edited_budget edited_goal]
  from t b(1,4) have "budgets (handleSaveBudget edited_budget edit_example) ! 1
      = (if budget_id (budgets edit_example ! 1) = budget_id edited_budget
         then edited_budget else budgets edit_example ! 1)"
    by blast
  with b(5) have b1: "budgets (handleSaveBudget edited_budget edit_example) ! 1 = edited_budget"
    by simp
  from b(4) have "0 < length (budgets edit_example)" by linarith
  with t b(1) have "budgets (handleSaveBudget edited_budget edit_example) ! 0
      = (if budget_id (budgets edit_example ! 0) = budget_id edited_budget
         then edited_budget else budgets edit_example ! 0)"
    by blast
  with b(6) have b0: "budgets (handleSaveBudget edited_budget edit_example) ! 0
      = budgets edit_example ! 0"
    by simp
  from g(4) have "0 < length (goals edit_example)" by linarith
  with t g(1) have "goals (handleSaveGoal edited_goal edit_example) ! 0
      = (if goal_id (goals edit_example ! 0) = goal_id edited_goal
         then edited_goal else goals edit_example ! 0)"
    by blast
  with g(5) have g0: "goals (handleSaveGoal edited_goal edit_example) ! 0 = edited_goal"
    by simp
  from t g(1,4) have "goals (handleSaveGoal edited_goal edit_example) ! 1
      = (if goal_id (goals edit_example ! 1) = goal_id edited_goal
         then edited_goal else goals edit_example ! 1)"
    by blast
  with g(6) have g1: "goals (handleSaveGoal edited_goal edit_example) ! 1
      = goals edit_example ! 1"
    by simp
  from t b g b0 b1 g0 g1 show ?thesis by blast
qed

section \<open>Unique ids\<close>

text \<open>Each handler that changes a list keeps the ids pairwise distinct.\<close>

lemma handleSaveBudget_ids_unique:
  assumes "ids_unique s"
    and "editingBudget s = None \<longrightarrow> budget_id d \<notin> set (map budget_id (budgets s))"
  shows "ids_unique (handleSaveBudget d s)"
proof (cases "editingBudget s")
  case None
  with assms show ?thesis by (simp add: ids_unique_def handleSaveBudget_def)
next
  case (Some b)
  then have "map budget_id (budgets (handleSaveBudget d s)) = map budget_id (budgets s)"
    by (simp add: handleSaveBudget_def replace_keeps_keys del: map_map)
  moreover from Some have "goals (handleSaveBudget d s) = goals s"
    by (simp add: handleSaveBudget_def)
  ultimately show ?thesis using assms(1) by (simp add: ids_unique_def)
qed

lemma handleSaveGoal_ids_unique:
  assumes "ids_unique s"
    and "editingGoal s = None \<longrightarrow> goal_id d \<notin> set (map goal_id (goals s))"
  shows "ids_unique (handleSaveGoal d s)"
proof (cases "editingGoal s")
  case None
  with assms show ?thesis by (simp add: ids_unique_def handleSaveGoal_def)
next
  case (Some b)
  then have "map goal_id (goals (handleSaveGoal d s)) = map goal_id (goals s)"
    by (simp add: handleSaveGoal_def replace_keeps_keys del: map_map)
  moreover from Some have "budgets (handleSaveGoal d s) = budgets s"
    by (simp add: handleSaveGoal_def)
  ultimately show ?thesis using assms(1) by (simp add: ids_unique_def)
qed

lemma handleConfirmDeleteBudget_ids_unique:
  "ids_unique s \<Longrightarrow> ids_unique (handleConfirmDeleteBudget s)"
  by (simp add: ids_unique_def handleConfirmDeleteBudget_def distinct_map_filter split: option.splits)

lemma handleConfirmDeleteGoal_ids_unique:
  "ids_unique s \<Longrightarrow> ids_unique (handleConfirmDeleteGoal s)"
  by (simp add: ids_unique_def handleConfirmDeleteGoal_def distinct_map_filter split: option.splits)

lemma handleAddSavings_ids_unique:
  assumes "ids_unique s"
  shows "ids_unique (handleAddSavings goalId amount s)"
proof -
  have "map goal_id (goals (handleAddSavings goalId amount s)) = map goal_id (goals s)"
    unfolding handleAddSavings_def
    by (simp del: map_map add: update_keeps_keys [where f = goal_id])
  moreover have "budgets (handleAddSavings goalId amount s) = budgets s"
    by (simp add: handleAddSavings_def)
  ultimately show ?thesis using assms by (simp add: ids_unique_def)
qed

lemma ids_unique_flags [simp]:
  "ids_unique (s\<lparr> activeTab := t \<rparr>) = ids_unique s"
  "ids_unique (s\<lparr> budgetFormOpen := b \<rparr>) = ids_unique s"
  "ids_unique (s\<lparr> editingBudget := eb \<rparr>) = ids_unique s"
  "ids_unique (s\<lparr> deleteBudgetOpen := b \<rparr>) = ids_unique s"
  "ids_unique (s\<lparr> budgetToDelete := bd \<rparr>) = ids_unique s"
  "ids_unique (s\<lparr> goalFormOpen := b \<rparr>) = ids_unique s"
  "ids_unique (s\<lparr> editingGoal := eg \<rparr>) = ids_unique s"
  "ids_unique (s\<lparr> deleteGoalOpen := b \<rparr>) = ids_unique s"
  "ids_unique (s\<lparr> goalToDelete := gd \<rparr>) = ids_unique s"
  "ids_unique (s\<lparr> addSavingsOpen := b \<rparr>) = ids_unique s"
  "ids_unique (s\<lparr> goalForSavings := gs \<rparr>) = ids_unique s"
  by (simp_all add: ids_unique_def)

lemma submitBudgetForm_ids_unique:
  assumes "ids_unique s" and "editingBudget s = None \<longrightarrow> uuid \<notin> set (map budget_id (budgets s))"
  shows "ids_unique (submitBudgetForm f uuid s)"
proof (cases "budget_submit_disabled f")
  case True
  with assms(1) show ?thesis by (simp add: submitBudgetForm_def budget_submit_def)
next
  case False
  have "editingBudget s = None \<longrightarrow>
          budget_id (budget_handleSubmit (editingBudget s) f uuid) \<notin> set (map budget_id (budgets s))"
    using assms(2) by (simp add: budget_handleSubmit_def)
  with assms(1) have "ids_unique (handleSaveBudget (budget_handleSubmit (editingBudget s) f uuid) s)"
    by (rule handleSaveBudget_ids_unique)
  with False show ?thesis by (simp add: submitBudgetForm_def budget_submit_def)
qed

lemma submitGoalForm_ids_unique:
  assumes "ids_unique s" and "editingGoal s = None \<longrightarrow> uuid \<notin> set (map goal_id (goals s))"
  shows "ids_unique (submitGoalForm f uuid s)"
proof (cases "goal_submit_disabled f")
  case True
  with assms(1) show ?thesis by (simp add: submitGoalForm_def goal_submit_def)
next
  case False
  have "editingGoal s = None \<longrightarrow>
          goal_id (goal_handleSubmit (editingGoal s) f uuid) \<notin> set (map goal_id (goals s))"
    using assms(2) by (simp add: goal_handleSubmit_def)
  with assms(1) have "ids_unique (handleSaveGoal (goal_handleSubmit (editingGoal s) f uuid) s)"
    by (rule handleSaveGoal_ids_unique)
  with False show ?thesis by (simp add: submitGoalForm_def goal_submit_def)
qed

lemma submitAddSavings_ids_unique:
  "ids_unique s \<Longrightarrow> ids_unique (submitAddSavings amount s)"
  by (simp add: submitAddSavings_def handleAddSavings_ids_unique split: option.splits prod.splits)

text \<open>
  C7. Unique ids are kept by every operation. From a page whose budget ids and goal ids
  are pairwise distinct, every event of the page leads to such a page again: a delete, an
  add-savings and the save of an edit always, and the creation of an entry when the
  identifier generated for it does not occur in its list yet.
\<close>

theorem ids_stay_unique:
  assumes "ids_unique s" and "generated_id_fresh e s" and "step e s = Some s'"
  shows "ids_unique s'"
proof (cases e)
  case (BudgetFormSubmit f uuid)
  with assms show ?thesis
    by (auto simp: submitBudgetForm_ids_unique split: if_splits)
next
  case (GoalFormSubmit f uuid)
  with assms show ?thesis
    by (auto simp: submitGoalForm_ids_unique split: if_splits)
next
  case DeleteBudgetConfirm
  with assms show ?thesis
    by (auto simp: handleConfirmDeleteBudget_ids_unique split: if_splits)
next
  case DeleteGoalConfirm
  with assms show ?thesis
    by (auto simp: handleConfirmDeleteGoal_ids_unique split: if_splits)
next
  case (AddSavingsSubmit amount)
  with assms show ?thesis
    by (auto simp: submitAddSavings_ids_unique split: if_splits)
qed (use assms in \<open>auto simp: handleAddBudget_def handleAddGoal_def handleEditBudget_def
       handleEditGoal_def handleDeleteBudgetClick_def handleDeleteGoalClick_def
       handleAddSavingsClick_def split: if_splits\<close>)

text \<open>
  On the initial page with the budget form open for a new entry: the submit of the form
  ``Rent'' with a fresh identifier.
\<close>

theorem ids_stay_unique_witness:
  "ids_unique create_example
   \<and> generated_id_fresh (BudgetFormSubmit new_budget_form example_uuid) create_example
   \<and> step (BudgetFormSubmit new_budget_form example_uuid) create_example
       = Some (submitBudgetForm new_budget_form example_uuid create_example)
   \<and> ids_unique (submitBudgetForm new_budget_form example_uuid create_example)"
proof -
  have u: "ids_unique create_example"
    by (simp add: ids_unique_def create_example_def handleAddBudget_def initial_page_def
          INITIAL_BUDGETS_def INITIAL_GOALS_def)
  have f: "generated_id_fresh (BudgetFormSubmit new_budget_form example_uuid) create_example"
    by (simp add: create_example_def handleAddBudget_def initial_page_def INITIAL_BUDGETS_def
          example_uuid_def)
  have s: "step (BudgetFormSubmit new_budget_form example_uuid) create_example
            = Some (submitBudgetForm new_budget_form example_uuid create_example)"
    by (simp add: create_example_def handleAddBudget_def randomUUID_result_def example_uuid_def)
  from ids_stay_unique [OF u f s] u f s show ?thesis by simp
qed

section \<open>Pages reached from the initial page\<close>

text \<open>The expression \<open>x || 0\<close> is never \<open>NaN\<close>, and it is \<open>x\<close> unless \<open>x\<close> is \<open>NaN\<close>.\<close>

lemma num_or_not_NaN: "num_or x (Fin 0) \<noteq> NaN"
  by (cases x) (simp_all add: num_or_def)

lemma num_or_id: "x \<noteq> NaN \<Longrightarrow> num_or x (Fin 0) = x"
  by (cases x) (simp_all add: num_or_def)

text \<open>What the three submits leave alone, and what they do to the ids.\<close>

lemma submitBudgetForm_frame:
  "goals (submitBudgetForm f uuid s) = goals s"
  "budgetToDelete (submitBudgetForm f uuid s) = budgetToDelete s"
  "goalToDelete (submitBudgetForm f uuid s) = goalToDelete s"
  by (simp_all add: submitBudgetForm_def budget_submit_def handleSaveBudget_def)

lemma submitGoalForm_frame:
  "budgets (submitGoalForm f uuid s) = budgets s"
  "budgetToDelete (submitGoalForm f uuid s) = budgetToDelete s"
  "goalToDelete (submitGoalForm f uuid s) = goalToDelete s"
  "editingBudget (submitGoalForm f uuid s) = editingBudget s"
  by (simp_all add: submitGoalForm_def goal_submit_def handleSaveGoal_def)

lemma submitAddSavings_frame:
  "budgets (submitAddSavings amount s) = budgets s"
  "budgetToDelete (submitAddSavings amount s) = budgetToDelete s"
  "goalToDelete (submitAddSavings amount s) = goalToDelete s"
  "editingBudget (submitAddSavings amount s) = editingBudget s"
  by (simp_all add: submitAddSavings_def handleAddSavings_def split: option.splits prod.splits)

lemma submitBudgetForm_ids:
  "set (map budget_id (budgets s)) \<subseteq> set (map budget_id (budgets (submitBudgetForm f uuid s)))"
proof (cases "budget_submit_disabled f \<or> editingBudget s = None")
  case True
  then show ?thesis
    by (auto simp: submitBudgetForm_def budget_submit_def handleSaveBudget_def)
next
  case False
  then have "map budget_id (budgets (submitBudgetForm f uuid s)) = map budget_id (budgets s)"
    by (simp add: submitBudgetForm_def budget_submit_def handleSaveBudget_def
          replace_keeps_keys del: map_map)
  then show ?thesis by simp
qed

lemma submitGoalForm_ids:
  "set (map goal_id (goals s)) \<subseteq> set (map goal_id (goals (submitGoalForm f uuid s)))"
proof (cases "goal_submit_disabled f \<or> editingGoal s = None")
  case True
  then show ?thesis
    by (auto simp: submitGoalForm_def goal_submit_def handleSaveGoal_def)
next
  case False
  then have "map goal_id (goals (submitGoalForm f uuid s)) = map goal_id (goals s)"
    by (simp add: submitGoalForm_def goal_submit_def handleSaveGoal_def
          replace_keeps_keys del: map_map)
  then show ?thesis by simp
qed

lemma submitAddSavings_ids:
  "map goal_id (goals (submitAddSavings amount s)) = map goal_id (goals s)"
proof -
  have "map goal_id (goals (handleAddSavings goalId a s)) = map goal_id (goals s)" for goalId a
    unfolding handleAddSavings_def
    by (simp del: map_map add: update_keeps_keys [where f = goal_id])
  then show ?thesis
    by (simp add: submitAddSavings_def split: option.splits prod.splits)
qed

text \<open>
  Every budget of the list and the budget being edited have a non-empty id and a \<open>spent\<close>
  that is a number: the initial budgets have, and a submitted budget takes its id from
  such a budget or from \<open>crypto.randomUUID()\<close> and its \<open>spent\<close> through \<open>|| 0\<close>.
\<close>

lemma budget_handleSubmit_ok:
  assumes "randomUUID_result uuid" and "case eb of None \<Rightarrow> True | Some b \<Rightarrow> budget_ok b"
  shows "budget_ok (budget_handleSubmit eb f uuid)"
  using assms
  by (auto simp: budget_ok_def budget_handleSubmit_def randomUUID_result_def num_or_not_NaN
        split: option.splits)

lemma submitBudgetForm_ok:
  assumes "budgets_ok s" and "randomUUID_result uuid"
  shows "budgets_ok (submitBudgetForm f uuid s)"
proof -
  from assms have "budget_ok (budget_handleSubmit (editingBudget s) f uuid)"
    by (intro budget_handleSubmit_ok) (simp_all add: budgets_ok_def)
  with assms(1) show ?thesis
    by (auto simp: budgets_ok_def submitBudgetForm_def budget_submit_def handleSaveBudget_def
          list_all_iff split: option.splits)
qed

lemma step_budgets_ok:
  assumes "budgets_ok s" and "step e s = Some s'"
  shows "budgets_ok s'"
proof (cases e)
  case (BudgetFormSubmit f uuid)
  with assms show ?thesis by (auto simp: submitBudgetForm_ok split: if_splits)
next
  case (GoalFormSubmit f uuid)
  with assms(2) have s': "s' = submitGoalForm f uuid s" by (simp split: if_splits)
  from assms(1) show ?thesis unfolding s' budgets_ok_def submitGoalForm_frame .
next
  case (AddSavingsSubmit amount)
  with assms(2) have s': "s' = submitAddSavings amount s" by (simp split: if_splits)
  from assms(1) show ?thesis unfolding s' budgets_ok_def submitAddSavings_frame .
next
  case DeleteBudgetConfirm
  with assms show ?thesis
    by (auto simp: budgets_ok_def handleConfirmDeleteBudget_def list_all_iff
          split: if_splits option.splits)
next
  case DeleteGoalConfirm
  with assms show ?thesis
    by (auto simp: budgets_ok_def handleConfirmDeleteGoal_def split: if_splits option.splits)
next
  case (EditBudgetClick b)
  with assms show ?thesis
    by (auto simp: budgets_ok_def handleEditBudget_def list_all_iff split: if_splits)
qed (use assms in \<open>auto simp: budgets_ok_def handleAddBudget_def handleAddGoal_def
       handleEditGoal_def handleDeleteBudgetClick_def handleDeleteGoalClick_def
       handleAddSavingsClick_def split: if_splits option.splits\<close>)

lemma initial_budgets_ok: "budgets_ok initial_page"
  by (simp add: budgets_ok_def budget_ok_def initial_page_def INITIAL_BUDGETS_def)

lemma reachable_budgets_ok: "reachable s \<Longrightarrow> budgets_ok s"
  by (induction rule: reachable.induct) (auto intro: initial_budgets_ok step_budgets_ok)

lemma run_reachable: "reachable s \<Longrightarrow> run es s = Some s' \<Longrightarrow> reachable s'"
proof (induction es arbitrary: s)
  case Nil
  then show ?case by simp
next
  case (Cons e es)
  then show ?case by (auto split: option.splits intro: reachable_step)
qed

text \<open>
  The item picked for deletion keeps an id of its list: it is picked from the list, and
  until the deletion is confirmed no id leaves the list.
\<close>

lemma step_delete_target_listed:
  assumes "delete_target_listed s" and "step e s = Some s'"
  shows "delete_target_listed s'"
proof (cases e)
  case (BudgetFormSubmit f uuid)
  with assms(2) have s': "s' = submitBudgetForm f uuid s" by (simp split: if_splits)
  from assms(1) submitBudgetForm_ids [of s f uuid] show ?thesis
    unfolding s' delete_target_listed_def submitBudgetForm_frame
    by (auto split: option.splits)
next
  case (GoalFormSubmit f uuid)
  with assms(2) have s': "s' = submitGoalForm f uuid s" by (simp split: if_splits)
  from assms(1) submitGoalForm_ids [of s f uuid] show ?thesis
    unfolding s' delete_target_listed_def submitGoalForm_frame
    by (auto split: option.splits)
next
  case (AddSavingsSubmit amount)
  with assms(2) have s': "s' = submitAddSavings amount s" by (simp split: if_splits)
  from assms(1) show ?thesis
    unfolding s' delete_target_listed_def submitAddSavings_frame submitAddSavings_ids
    by simp
next
  case DeleteBudgetConfirm
  with assms(2) have s': "s' = handleConfirmDeleteBudget s" by (simp split: if_splits)
  from assms(1) show ?thesis
    unfolding s' delete_target_listed_def handleConfirmDeleteBudget_def
    by (simp split: option.splits)
next
  case DeleteGoalConfirm
  with assms(2) have s': "s' = handleConfirmDeleteGoal s" by (simp split: if_splits)
  from assms(1) show ?thesis
    unfolding s' delete_target_listed_def handleConfirmDeleteGoal_def
    by (simp split: option.splits)
next
  case (DeleteBudgetClick b)
  with assms show ?thesis
    by (auto simp: delete_target_listed_def handleDeleteBudgetClick_def
          split: if_splits option.splits)
next
  case (DeleteGoalClick g)
  with assms show ?thesis
    by (auto simp: delete_target_listed_def handleDeleteGoalClick_def
          split: if_splits option.splits)
qed (use assms in \<open>auto simp: delete_target_listed_def handleAddBudget_def handleAddGoal_def
       handleEditBudget_def handleEditGoal_def handleAddSavingsClick_def
       split: if_splits option.splits\<close>)

lemma reachable_delete_target_listed: "reachable s \<Longrightarrow> delete_target_listed s"
proof (induction rule: reachable.induct)
  case reachable_init
  show ?case by (simp add: delete_target_listed_def initial_page_def)
next
  case (reachable_step s e s')
  then show ?case by (blast intro: step_delete_target_listed)
qed

section \<open>Editing a budget\<close>

text \<open>
  C9. Editing a budget through the form keeps its id and its \<open>spent\<close>. On every page
  reached from the initial one, for the budget \<open>b\<close> being edited and every content of the
  form, the budget that \<open>handleSubmit\<close> hands to \<open>onSave\<close> has the id and the \<open>spent\<close> of
  \<open>b\<close>; category, emoji, limit and color come from the form. When \<open>b\<close> is an entry of the
  list and the ids are pairwise distinct, the submit leaves the id and the \<open>spent\<close> at
  every position of the list as they were.
\<close>

theorem edit_keeps_id_and_spent:
  assumes "reachable s" and "editingBudget s = Some b"
  shows "budget_id (budget_handleSubmit (Some b) f uuid) = budget_id b
         \<and> spent (budget_handleSubmit (Some b) f uuid) = spent b
         \<and> (ids_unique s \<and> b \<in> set (budgets s) \<longrightarrow>
              map budget_id (budgets (submitBudgetForm f uuid s)) = map budget_id (budgets s)
              \<and> map spent (budgets (submitBudgetForm f uuid s)) = map spent (budgets s))"
proof -
  from assms have ok: "budget_ok b"
    using reachable_budgets_ok [of s] by (simp add: budgets_ok_def)
  then have id: "budget_id (budget_handleSubmit (Some b) f uuid) = budget_id b"
    and sp: "spent (budget_handleSubmit (Some b) f uuid) = spent b"
    by (simp_all add: budget_handleSubmit_def budget_ok_def num_or_id)
  have "map budget_id (budgets (submitBudgetForm f uuid s)) = map budget_id (budgets s)
        \<and> map spent (budgets (submitBudgetForm f uuid s)) = map spent (budgets s)"
    if u: "ids_unique s" and m: "b \<in> set (budgets s)"
  proof (cases "budget_submit_disabled f")
    case True
    then show ?thesis by (simp add: submitBudgetForm_def budget_submit_def)
  next
    case False
    let ?d = "budget_handleSubmit (Some b) f uuid"
    from False assms(2) have eq: "budgets (submitBudgetForm f uuid s)
        = map (\<lambda>x. if budget_id x = budget_id ?d then ?d else x) (budgets s)"
      by (simp add: submitBudgetForm_def budget_submit_def handleSaveBudget_def)
    from u have inj: "inj_on budget_id (set (budgets s))"
      by (simp add: ids_unique_def distinct_map)
    have "spent (if budget_id x = budget_id ?d then ?d else x) = spent x"
      if "x \<in> set (budgets s)" for x
    proof (cases "budget_id x = budget_id ?d")
      case True
      with id have "budget_id x = budget_id b" by simp
      with inj that m have "x = b" by (auto dest: inj_onD)
      with True sp show ?thesis by simp
    next
      case False
      then show ?thesis by simp
    qed
    then have "map spent (budgets (submitBudgetForm f uuid s)) = map spent (budgets s)"
      unfolding eq by (simp add: map_idI)
    moreover have "map budget_id (budgets (submitBudgetForm f uuid s)) = map budget_id (budgets s)"
      unfolding eq by (rule replace_keeps_keys)
    ultimately show ?thesis by simp
  qed
  with id sp show ?thesis by blast
qed

text \<open>On the initial page with ``Transport'' open in the edit dialog and the form ``Rent''.\<close>

theorem edit_keeps_id_and_spent_witness:
  "reachable edit_budget_example
   \<and> editingBudget edit_budget_example = Some (INITIAL_BUDGETS ! 1)
   \<and> ids_unique edit_budget_example
   \<and> INITIAL_BUDGETS ! 1 \<in> set (budgets edit_budget_example)
   \<and> budget_id (budget_handleSubmit (Some (INITIAL_BUDGETS ! 1)) new_budget_form example_uuid)
       = budget_id (INITIAL_BUDGETS ! 1)
   \<and> spent (budget_handleSubmit (Some (INITIAL_BUDGETS ! 1)) new_budget_form example_uuid)
       = spent (INITIAL_BUDGETS ! 1)
   \<and> map budget_id (budgets (submitBudgetForm new_budget_form example_uuid edit_budget_example))
       = map budget_id (budgets edit_budget_example)
   \<and> map spent (budgets (submitBudgetForm new_budget_form example_uuid edit_budget_example))
       = map spent (budgets edit_budget_example)"
proof -
  have "step (EditBudgetClick (INITIAL_BUDGETS ! 1)) initial_page = Some edit_budget_example"
    by (simp add: edit_budget_example_def initial_page_def INITIAL_BUDGETS_def)
  with reachable_init have r: "reachable edit_budget_example"
    by (rule reachable_step)
  have e: "editingBudget edit_budget_example = Some (INITIAL_BUDGETS ! 1)"
    by (simp add: edit_budget_example_def handleEditBudget_def)
  have u: "ids_unique edit_budget_example"
    by (simp add: ids_unique_def edit_budget_example_def handleEditBudget_def initial_page_def
          INITIAL_BUDGETS_def INITIAL_GOALS_def)
  have m: "INITIAL_BUDGETS ! 1 \<in> set (budgets edit_budget_example)"
    by (simp add: edit_budget_example_def handleEditBudget_def initial_page_def
          INITIAL_BUDGETS_def)
  from edit_keeps_id_and_spent [OF r e, of new_budget_form example_uuid] r e u m
  show ?thesis by blast
qed

section \<open>Submitting a form\<close>

text \<open>
  C5. An empty required field blocks the submit. With the category or the limit empty
  the submit button of the budget form is disabled: nothing is handed to \<open>onSave\<close>, and
  the page, with its lists, is after the attempt what it was before. The same holds for
  the goal form with the title, the target or the deadline empty.
\<close>

theorem empty_required_field_blocks_submit:
  "(category_input f = [] \<or> limit_input f = [] \<longrightarrow>
      budget_submit_disabled f \<and> budget_submit eb f uuid = None
      \<and> submitBudgetForm f uuid s = s
      \<and> (step (BudgetFormSubmit f uuid) s = None \<or> step (BudgetFormSubmit f uuid) s = Some s))
   \<and> (title_input g = [] \<or> target_input g = [] \<or> deadline_input g = [] \<longrightarrow>
      goal_submit_disabled g \<and> goal_submit eg g uuid = None
      \<and> submitGoalForm g uuid s = s
      \<and> (step (GoalFormSubmit g uuid) s = None \<or> step (GoalFormSubmit g uuid) s = Some s))"
  by (auto simp: budget_submit_disabled_def budget_submit_def submitBudgetForm_def
        goal_submit_disabled_def goal_submit_def submitGoalForm_def)

text \<open>The budget form with an empty limit and the goal form with an empty deadline.\<close>

theorem empty_required_field_blocks_submit_witness:
  "limit_input empty_limit_form = []
   \<and> budget_submit_disabled empty_limit_form
   \<and> budget_submit None empty_limit_form example_uuid = None
   \<and> submitBudgetForm empty_limit_form example_uuid create_example = create_example
   \<and> budgets (submitBudgetForm empty_limit_form example_uuid create_example) = INITIAL_BUDGETS
   \<and> deadline_input empty_deadline_form = []
   \<and> goal_submit_disabled empty_deadline_form
   \<and> goal_submit None empty_deadline_form example_uuid = None
   \<and> submitGoalForm empty_deadline_form example_uuid create_example = create_example
   \<and> goals (submitGoalForm empty_deadline_form example_uuid create_example) = INITIAL_GOALS"
proof -
  have b: "limit_input empty_limit_form = []"
    by (simp add: empty_limit_form_def)
  have g: "deadline_input empty_deadline_form = []"
    by (simp add: empty_deadline_form_def)
  have l: "budgets create_example = INITIAL_BUDGETS" "goals create_example = INITIAL_GOALS"
    by (simp_all add: create_example_def handleAddBudget_def initial_page_def)
  from b g l empty_required_field_blocks_submit
      [of empty_limit_form None example_uuid create_example empty_deadline_form None]
  show ?thesis by simp
qed

text \<open>
  C4, as the code has it. The number inputs declare \<open>min="0"\<close>, and \<open>handleSubmit\<close> itself
  checks nothing, so a limit or a target of \<open>0\<close> passes the validation of its dialog:
  the budget handed to \<open>onSave\<close> has the limit \<open>0\<close>, which is not positive, and the
  goal the target \<open>0\<close>.
\<close>

theorem zero_limit_passes_validation:
  "budget_validation zero_limit_form
   \<and> budget_submit None zero_limit_form example_uuid
       = Some (budget_handleSubmit None zero_limit_form example_uuid)
   \<and> limit (budget_handleSubmit None zero_limit_form example_uuid) = Fin 0
   \<and> \<not> jlt (Fin 0) (limit (budget_handleSubmit None zero_limit_form example_uuid))
   \<and> goal_validation zero_target_form
   \<and> goal_submit None zero_target_form example_uuid
       = Some (goal_handleSubmit None zero_target_form example_uuid)
   \<and> target (goal_handleSubmit None zero_target_form example_uuid) = Fin 0
   \<and> \<not> jlt (Fin 0) (target (goal_handleSubmit None zero_target_form example_uuid))"
  by (simp add: budget_validation_def budget_submit_def budget_submit_disabled_def
        budget_handleSubmit_def zero_limit_form_def new_budget_form_def
        goal_validation_def goal_submit_def goal_submit_disabled_def
        goal_handleSubmit_def zero_target_form_def new_goal_form_def
        number_input_valid_def num_or_def parse_examples)

text \<open>A finite number survives \<open>|| 0\<close>: zero is replaced by zero.\<close>

lemma num_or_Fin: "num_or (Fin r) (Fin 0) = Fin r"
  by (simp add: num_or_def)

text \<open>
  C4, amended. For every form that passes the validation of its dialog (submit button
  enabled, required fields present, number inputs not below their minimum \<open>0\<close>), the
  budget handed to \<open>onSave\<close> has as limit the number typed in, which is finite and not
  negative; zero is possible. The same holds for the target of the goal handed to
  \<open>onSave\<close> by the goal form.
\<close>

theorem submitted_amounts_not_negative:
  "(budget_validation f \<and> budget_submit eb f uuid = Some d \<longrightarrow>
      limit d = parseFloat (limit_input f) \<and> jle (Fin 0) (limit d))
   \<and> (goal_validation g \<and> goal_submit eg g uuid = Some gd \<longrightarrow>
      target gd = parseFloat (target_input g) \<and> jle (Fin 0) (target gd))"
proof (intro conjI impI)
  assume h: "budget_validation f \<and> budget_submit eb f uuid = Some d"
  then obtain r where r: "parseFloat (limit_input f) = Fin r" "0 \<le> r"
    by (auto simp: budget_validation_def number_input_valid_def split: jsnum.splits)
  from h have "limit d = num_or (parseFloat (limit_input f)) (Fin 0)"
    by (auto simp: budget_submit_def budget_handleSubmit_def split: if_splits)
  with r show "limit d = parseFloat (limit_input f)" "jle (Fin 0) (limit d)"
    by (simp_all add: num_or_Fin)
next
  assume h: "goal_validation g \<and> goal_submit eg g uuid = Some gd"
  then obtain r where r: "parseFloat (target_input g) = Fin r" "0 \<le> r"
    by (auto simp: goal_validation_def number_input_valid_def split: jsnum.splits)
  from h have "target gd = num_or (parseFloat (target_input g)) (Fin 0)"
    by (auto simp: goal_submit_def goal_handleSubmit_def split: if_splits)
  with r show "target gd = parseFloat (target_input g)" "jle (Fin 0) (target gd)"
    by (simp_all add: num_or_Fin)
qed

text \<open>The forms ``Rent'' with the limit 20000 and ``Bicycle'' with the target 30000.\<close>

theorem submitted_amounts_not_negative_witness:
  "budget_validation new_budget_form
   \<and> budget_submit None new_budget_form example_uuid
       = Some (budget_handleSubmit None new_budget_form example_uuid)
   \<and> limit (budget_handleSubmit None new_budget_form example_uuid) = parseFloat ''20000''
   \<and> jle (Fin 0) (limit (budget_handleSubmit None new_budget_form example_uuid))
   \<and> goal_validation new_goal_form
   \<and> goal_submit None new_goal_form example_uuid
       = Some (goal_handleSubmit None new_goal_form example_uuid)
   \<and> target (goal_handleSubmit None new_goal_form example_uuid) = parseFloat ''30000''
   \<and> jle (Fin 0) (target (goal_handleSubmit None new_goal_form example_uuid))"
proof -
  have b: "budget_validation new_budget_form"
    "budget_submit None new_budget_form example_uuid
       = Some (budget_handleSubmit None new_budget_form example_uuid)"
    "limit_input new_budget_form = ''20000''"
    by (simp_all add: budget_validation_def budget_submit_def budget_submit_disabled_def
          new_budget_form_def number_input_valid_def parse_examples)
  have g: "goal_validation new_goal_form"
    "goal_submit None new_goal_form example_uuid
       = Some (goal_handleSubmit None new_goal_form example_uuid)"
    "target_input new_goal_form = ''30000''"
    by (simp_all add: goal_validation_def goal_submit_def goal_submit_disabled_def
          new_goal_form_def number_input_valid_def parse_examples)
  from submitted_amounts_not_negative
         [of new_budget_form None example_uuid "budget_handleSubmit None new_budget_form example_uuid"
             new_goal_form None "goal_handleSubmit None new_goal_form example_uuid"]
    b g
  show ?thesis by (simp add: parse_examples)
qed

section \<open>Progress bars\<close>

text \<open>
  The bars that go through \<open>Math.min(..., 100)\<close> never show more than 100: the bar of a
  goal, the preview of the savings dialog, the bar of a budget and the monthly budget bar.
\<close>

lemma Math_min_at_most: "\<not> jlt (Fin 100) (Math_min x (Fin 100))"
  by (cases x) simp_all

lemma clamped_bars:
  "\<not> jlt (Fin 100) (goalWidth g)"
  "\<not> jlt (Fin 100) (newPercentage g amount)"
  "\<not> jlt (Fin 100) (budgetWidth b)"
  "\<not> jlt (Fin 100) (budgetOverviewWidth s)"
  by (simp_all add: goalWidth_def newPercentage_def budgetWidth_def budgetOverviewWidth_def
        Math_min_at_most)

text \<open>The three events of the run that adds a million rupees to ``Emergency Fund''.\<close>

lemma add_million_step1:
  "step (SetActiveTab Goals_tab) initial_page = Some (initial_page\<lparr> activeTab := Goals_tab \<rparr>)"
  by simp

lemma add_million_step2:
  "step (AddSavingsClick (INITIAL_GOALS ! 0)) (initial_page\<lparr> activeTab := Goals_tab \<rparr>)
     = Some (initial_page\<lparr> activeTab := Goals_tab, addSavingsOpen := True,
                            goalForSavings := Some (INITIAL_GOALS ! 0) \<rparr>)"
  by (simp add: initial_page_def INITIAL_GOALS_def isComplete_def handleAddSavingsClick_def)

lemma add_million_step3:
  "step (AddSavingsSubmit ''1000000'')
     (initial_page\<lparr> activeTab := Goals_tab, addSavingsOpen := True,
                    goalForSavings := Some (INITIAL_GOALS ! 0) \<rparr>)
     = Some after_add_million"
  by (simp add: after_add_million_def initial_page_def INITIAL_GOALS_def submitAddSavings_def
        savings_submit_disabled_def currentAmount_def num_or_def savings_handleSubmit_def
        handleAddSavings_def parse_examples)

lemma run_add_million: "run add_million initial_page = Some after_add_million"
  unfolding add_million_def
  by (simp only: run.simps add_million_step1 add_million_step2 add_million_step3 option.case)

text \<open>
  C6. Every goal-progress fill is clamped to at most 100 per cent: the goals overview bar
  is not. Its width is \<open>(totalSaved / totalTarget) * 100\<close> with no \<open>Math.min\<close>, unlike the
  bar of one goal, the preview of the savings dialog and the monthly budget bar. After a
  million rupees are added to the goal ``Emergency Fund'' on the initial page, the page is
  reached with total savings of 1220000 against total targets of 480000, and the width of
  the goals overview bar is the double \<open>8942694572578133 / 2 ^ 45\<close>, printed as
  \<open>254.16666666666666\<close>.
\<close>

theorem goals_overview_bar_exceeds_100:
  "run add_million initial_page = Some after_add_million
   \<and> reachable after_add_million
   \<and> totalSaved after_add_million = Fin 1220000
   \<and> totalTarget after_add_million = Fin 480000
   \<and> goalsOverviewWidth after_add_million = Fin (8942694572578133 / 35184372088832)
   \<and> jlt (Fin 100) (goalsOverviewWidth after_add_million)"
proof -
  have "reachable after_add_million"
    using reachable_init run_add_million by (rule run_reachable)
  moreover have "totalSaved after_add_million = Fin 1220000"
    "totalTarget after_add_million = Fin 480000"
    by (simp_all add: totalSaved_def totalTarget_def after_add_million_def INITIAL_GOALS_def)
  moreover from this
  have "goalsOverviewWidth after_add_million = Fin (8942694572578133 / 35184372088832)"
    by (simp add: goalsOverviewWidth_def to_double_compute)
  ultimately show ?thesis using run_add_million by simp
qed

section \<open>Divisors of the overview bars\<close>

text \<open>On the initial page both divisors are positive.\<close>

lemma initial_divisors: "totalBudget initial_page = Fin 42000" "totalTarget initial_page = Fin 480000"
  by (simp_all add: totalBudget_def totalTarget_def initial_page_def INITIAL_BUDGETS_def INITIAL_GOALS_def)

text \<open>Deleting every budget, and deleting every goal, from the initial page.\<close>

lemma run_delete_all_budgets: "run delete_all_budgets initial_page = Some no_budgets_page"
  by (simp add: delete_all_budgets_def no_budgets_page_def initial_page_def INITIAL_BUDGETS_def
        handleDeleteBudgetClick_def handleConfirmDeleteBudget_def)

lemma run_delete_all_goals: "run delete_all_goals initial_page = Some no_goals_page"
  by (simp add: delete_all_goals_def no_goals_page_def initial_page_def INITIAL_GOALS_def
        handleDeleteGoalClick_def handleConfirmDeleteGoal_def)

text \<open>
  C10. The divisors of the overview bars are nonzero on every reachable page: they are
  not. Deleting the five budgets one after the other leads from the initial page to a
  page with no budgets, where \<open>totalBudget\<close> is \<open>0\<close>, \<open>totalSpent / totalBudget\<close> is
  \<open>0 / 0 = NaN\<close> and the width of the monthly budget bar is \<open>NaN\<close>. Deleting the three
  goals leads to a page with no goals, where \<open>totalTarget\<close> is \<open>0\<close> and the width of the
  goals overview bar is \<open>NaN\<close>. The page has a card for the empty list, and the overview
  card above it is rendered all the same.
\<close>

theorem overview_divisors_zero_on_empty_lists:
  "run delete_all_budgets initial_page = Some no_budgets_page
   \<and> reachable no_budgets_page
   \<and> budgets no_budgets_page = []
   \<and> totalBudget no_budgets_page = Fin 0
   \<and> jdiv (totalSpent no_budgets_page) (totalBudget no_budgets_page) = NaN
   \<and> budgetOverviewWidth no_budgets_page = NaN
   \<and> run delete_all_goals initial_page = Some no_goals_page
   \<and> reachable no_goals_page
   \<and> goals no_goals_page = []
   \<and> totalTarget no_goals_page = Fin 0
   \<and> jdiv (totalSaved no_goals_page) (totalTarget no_goals_page) = NaN
   \<and> goalsOverviewWidth no_goals_page = NaN"
proof -
  have "reachable no_budgets_page"
    using reachable_init run_delete_all_budgets by (rule run_reachable)
  moreover have "reachable no_goals_page"
    using reachable_init run_delete_all_goals by (rule run_reachable)
  moreover have "budgets no_budgets_page = []" "totalBudget no_budgets_page = Fin 0"
    "jdiv (totalSpent no_budgets_page) (totalBudget no_budgets_page) = NaN"
    "budgetOverviewWidth no_budgets_page = NaN"
    by (simp_all add: no_budgets_page_def budgetOverviewWidth_def totalBudget_def totalSpent_def)
  moreover have "goals no_goals_page = []" "totalTarget no_goals_page = Fin 0"
    "jdiv (totalSaved no_goals_page) (totalTarget no_goals_page) = NaN"
    "goalsOverviewWidth no_goals_page = NaN"
    by (simp_all add: no_goals_page_def goalsOverviewWidth_def totalSaved_def totalTarget_def)
  ultimately show ?thesis
    using run_delete_all_budgets run_delete_all_goals by simp
qed

section \<open>Adding savings\<close>

text \<open>
  The run that edits ``Emergency Fund'' to a saved amount of \<open>2 ^ 53\<close> below a target of
  \<open>2 ^ 54\<close> and opens the savings dialog on it.
\<close>

lemma large_saved_step2:
  "step (EditGoalClick (INITIAL_GOALS ! 0)) (initial_page\<lparr> activeTab := Goals_tab \<rparr>)
     = Some (initial_page\<lparr> activeTab := Goals_tab, goalFormOpen := True,
                            editingGoal := Some (INITIAL_GOALS ! 0) \<rparr>)"
  by (simp add: initial_page_def INITIAL_GOALS_def handleEditGoal_def)

lemma large_saved_step3:
  "step (GoalFormSubmit large_saved_form example_uuid)
     (initial_page\<lparr> activeTab := Goals_tab, goalFormOpen := True,
                    editingGoal := Some (INITIAL_GOALS ! 0) \<rparr>)
     = Some (initial_page\<lparr> activeTab := Goals_tab, goals := large_saved_goal # tl INITIAL_GOALS,
                            editingGoal := Some (INITIAL_GOALS ! 0) \<rparr>)"
  by (simp add: initial_page_def INITIAL_GOALS_def randomUUID_result_def example_uuid_def
        submitGoalForm_def goal_submit_def goal_submit_disabled_def goal_handleSubmit_def
        handleSaveGoal_def large_saved_form_def large_saved_goal_def num_or_def
        parse_examples parse_two_to_54)

lemma large_saved_step4:
  "step (AddSavingsClick large_saved_goal)
     (initial_page\<lparr> activeTab := Goals_tab, goals := large_saved_goal # tl INITIAL_GOALS,
                    editingGoal := Some (INITIAL_GOALS ! 0) \<rparr>)
     = Some large_saved_page"
  by (simp add: large_saved_page_def large_saved_goal_def isComplete_def handleAddSavingsClick_def)

lemma run_edit_to_large_saved: "run edit_to_large_saved initial_page = Some large_saved_page"
  unfolding edit_to_large_saved_def
  by (simp only: run.simps add_million_step1 large_saved_step2 large_saved_step3
        large_saved_step4 option.case)

text \<open>
  C3, as the code has it. The sum \<open>g.saved + amount\<close> is a sum of doubles and is rounded.
  On a page reached from the initial one the goal ``Emergency Fund'' has saved
  \<open>9007199254740992\<close>, which is \<open>2 ^ 53\<close>; the savings dialog accepts the amount \<open>1\<close> and
  hands it to \<open>handleAddSavings\<close>, and the goal has saved \<open>9007199254740992\<close> afterwards,
  not \<open>9007199254740993\<close>: the increase is not exact.
\<close>

theorem add_one_rupee_is_rounded_away:
  "run edit_to_large_saved initial_page = Some large_saved_page
   \<and> reachable large_saved_page
   \<and> goal_id (goals large_saved_page ! 0) = ''1''
   \<and> saved (goals large_saved_page ! 0) = Fin 9007199254740992
   \<and> \<not> savings_submit_disabled ''1''
   \<and> savings_handleSubmit (goalForSavings large_saved_page) ''1'' = Some (''1'', Fin 1)
   \<and> saved (goals (handleAddSavings ''1'' (Fin 1) large_saved_page) ! 0) = Fin 9007199254740992
   \<and> saved (goals (handleAddSavings ''1'' (Fin 1) large_saved_page) ! 0)
       \<noteq> Fin (9007199254740992 + 1)"
proof -
  have "reachable large_saved_page"
    using reachable_init run_edit_to_large_saved by (rule run_reachable)
  moreover have "goal_id (goals large_saved_page ! 0) = ''1''"
    "saved (goals large_saved_page ! 0) = Fin 9007199254740992"
    by (simp_all add: large_saved_page_def large_saved_goal_def)
  moreover have "\<not> savings_submit_disabled ''1''"
    "savings_handleSubmit (goalForSavings large_saved_page) ''1'' = Some (''1'', Fin 1)"
    by (simp_all add: savings_submit_disabled_def currentAmount_def num_or_def
          savings_handleSubmit_def large_saved_page_def large_saved_goal_def parse_examples)
  moreover have "saved (goals (handleAddSavings ''1'' (Fin 1) large_saved_page) ! 0)
      = Fin 9007199254740992"
    by (simp add: handleAddSavings_def large_saved_page_def large_saved_goal_def
          to_double_compute)
  ultimately show ?thesis using run_edit_to_large_saved by simp
qed

text \<open>
  C3, amended. \<open>handleAddSavings\<close> keeps the length of the list; at each position the
  goal with the given id has its \<open>saved\<close> replaced by the sum of its previous \<open>saved\<close> and
  the amount as \<open>+\<close> computes it, every other field kept, and a goal with another id is
  unchanged. For finite numbers \<open>x\<close> and \<open>y\<close> the new \<open>saved\<close> is the double nearest to
  \<open>x + y\<close>, with no cap and no other adjustment; it is \<open>x + y\<close> itself when both are whole
  numbers and \<open>x + y\<close> is at most \<open>2 ^ 53\<close> in absolute value.
\<close>

theorem add_savings_adds_rounded_amount:
  "length (goals (handleAddSavings goalId amount s)) = length (goals s)
   \<and> (\<forall>i<length (goals s).
         goals (handleAddSavings goalId amount s) ! i
           = (if goal_id (goals s ! i) = goalId
              then (goals s ! i)\<lparr> saved := jadd (saved (goals s ! i)) amount \<rparr>
              else goals s ! i))
   \<and> (\<forall>i<length (goals s). goal_id (goals s ! i) = goalId \<longrightarrow>
         saved (goals (handleAddSavings goalId amount s) ! i) = jadd (saved (goals s ! i)) amount
         \<and> (\<forall>x y. saved (goals s ! i) = Fin x \<and> amount = Fin y \<longrightarrow>
               saved (goals (handleAddSavings goalId amount s) ! i) = to_double (x + y))
         \<and> (\<forall>m n. saved (goals s ! i) = Fin (of_int m) \<and> amount = Fin (of_int n)
                 \<and> \<bar>m + n\<bar> \<le> 2 ^ 53 \<longrightarrow>
               saved (goals (handleAddSavings goalId amount s) ! i) = Fin (of_int (m + n))))"
  by (auto simp: handleAddSavings_def to_double_of_int simp flip: of_int_add)

text \<open>On the initial page, adding 5000 to the goal ``New Laptop'' with id \<open>2\<close>.\<close>

theorem add_savings_adds_rounded_amount_witness:
  "length (goals (handleAddSavings ''2'' (Fin 5000) initial_page)) = length (goals initial_page)
   \<and> (1 < length (goals initial_page) \<and> goal_id (goals initial_page ! 1) = ''2''
      \<and> saved (goals initial_page ! 1) = Fin (of_int 45000)
      \<and> \<bar>45000 + 5000 :: int\<bar> \<le> 2 ^ 53
      \<and> saved (goals (handleAddSavings ''2'' (Fin 5000) initial_page) ! 1)
          = Fin (of_int (45000 + 5000)))
   \<and> (0 < length (goals initial_page) \<and> goal_id (goals initial_page ! 0) \<noteq> ''2''
      \<and> goals (handleAddSavings ''2'' (Fin 5000) initial_page) ! 0 = goals initial_page ! 0)"
proof -
  have h: "1 < length (goals initial_page)" "goal_id (goals initial_page ! 1) = ''2''"
    "saved (goals initial_page ! 1) = Fin (of_int 45000)"
    "0 < length (goals initial_page)" "goal_id (goals initial_page ! 0) \<noteq> ''2''"
    by (simp_all add: initial_page_def INITIAL_GOALS_def)
  have a: "Fin 5000 = Fin (of_int 5000)" "\<bar>45000 + 5000 :: int\<bar> \<le> 2 ^ 53" by simp_all
  note t = add_savings_adds_rounded_amount [of "''2''" "Fin 5000" initial_page]
  from t have "length (goals (handleAddSavings ''2'' (Fin 5000) initial_page)) = length (goals initial_page)"
    by blast
  moreover from t h(1,2,3) a
  have "saved (goals (handleAddSavings ''2'' (Fin 5000) initial_page) ! 1)
          = Fin (of_int (45000 + 5000))"
    by blast
  moreover from t h(4,5)
  have "goals (handleAddSavings ''2'' (Fin 5000) initial_page) ! 0 = goals initial_page ! 0"
    by presburger
  ultimately show ?thesis using h a by blast
qed

section \<open>Totals of a render\<close>

text \<open>
  A left fold of \<open>+\<close> over whole numbers is exact as long as the absolute values met on
  the way add up to at most \<open>2 ^ 53\<close>.
\<close>

lemma foldl_jadd_ints:
  "\<bar>a\<bar> + sum_list (map abs ns) \<le> 2 ^ 53 \<Longrightarrow>
   foldl jadd (Fin (of_int a)) (map (\<lambda>n. Fin (of_int n)) ns) = Fin (of_int (a + sum_list ns))"
proof (induction ns arbitrary: a)
  case Nil
  then show ?case by simp
next
  case (Cons n ns)
  have le: "\<bar>a + n\<bar> \<le> \<bar>a\<bar> + \<bar>n\<bar>" by (rule abs_triangle_ineq)
  have nn: "0 \<le> sum_list (map abs ns)" by (induction ns) simp_all
  from Cons.prems le nn have "\<bar>a + n\<bar> \<le> 2 ^ 53" by simp
  then have step: "jadd (Fin (of_int a)) (Fin (of_int n)) = Fin (of_int (a + n))"
    by (rule jadd_ints)
  from Cons.prems le have "\<bar>a + n\<bar> + sum_list (map abs ns) \<le> 2 ^ 53" by simp
  then have "foldl jadd (Fin (of_int (a + n))) (map (\<lambda>n. Fin (of_int n)) ns)
               = Fin (of_int (a + n + sum_list ns))"
    by (rule Cons.IH)
  with step show ?case by (simp add: add.assoc)
qed

lemma total_of_ints:
  assumes "map f xs = map (\<lambda>n. Fin (of_int n)) ns" and "sum_list (map abs ns) \<le> 2 ^ 53"
  shows "foldl (\<lambda>sum x. jadd sum (f x)) (Fin 0) xs = Fin (of_int (sum_list ns))"
proof -
  have "foldl (\<lambda>sum x. jadd sum (f x)) (Fin 0) xs = foldl jadd (Fin 0) (map f xs)"
    by (simp add: foldl_map)
  also have "\<dots> = foldl jadd (Fin (of_int 0)) (map (\<lambda>n. Fin (of_int n)) ns)"
    by (simp add: assms(1))
  also have "\<dots> = Fin (of_int (0 + sum_list ns))"
    using assms(2) by (intro foldl_jadd_ints) simp
  finally show ?thesis by simp
qed

text \<open>The run that creates a goal with the target \<open>2 ^ 53\<close> and a goal with the target \<open>1\<close>.\<close>

lemma two_goals_step2:
  "step HeaderAddClick (initial_page\<lparr> activeTab := Goals_tab \<rparr>)
     = Some (initial_page\<lparr> activeTab := Goals_tab, goalFormOpen := True \<rparr>)"
  by (simp add: initial_page_def handleAddGoal_def)

lemma two_goals_step3:
  "step (GoalFormSubmit large_target_form example_uuid)
     (initial_page\<lparr> activeTab := Goals_tab, goalFormOpen := True \<rparr>)
     = Some (initial_page\<lparr> activeTab := Goals_tab,
               goals := INITIAL_GOALS @ [goal_handleSubmit None large_target_form example_uuid] \<rparr>)"
  by (simp add: initial_page_def randomUUID_result_def example_uuid_def
        submitGoalForm_def goal_submit_def goal_submit_disabled_def handleSaveGoal_def
        large_target_form_def)

lemma two_goals_step4:
  "step HeaderAddClick
     (initial_page\<lparr> activeTab := Goals_tab,
               goals := INITIAL_GOALS @ [goal_handleSubmit None large_target_form example_uuid] \<rparr>)
     = Some (initial_page\<lparr> activeTab := Goals_tab,
               goals := INITIAL_GOALS @ [goal_handleSubmit None large_target_form example_uuid],
               goalFormOpen := True \<rparr>)"
  by (simp add: initial_page_def handleAddGoal_def)

lemma two_goals_step5:
  "step (GoalFormSubmit one_rupee_form second_uuid)
     (initial_page\<lparr> activeTab := Goals_tab,
               goals := INITIAL_GOALS @ [goal_handleSubmit None large_target_form example_uuid],
               goalFormOpen := True \<rparr>)
     = Some five_goals_page"
  by (simp add: five_goals_page_def initial_page_def randomUUID_result_def second_uuid_def
        submitGoalForm_def goal_submit_def goal_submit_disabled_def handleSaveGoal_def
        one_rupee_form_def)

lemma run_create_two_goals: "run create_two_goals initial_page = Some five_goals_page"
  unfolding create_two_goals_def
  by (simp only: run.simps add_million_step1 two_goals_step2 two_goals_step3 two_goals_step4
        two_goals_step5 option.case)

text \<open>
  C8, as the code has it. Each total is a \<open>reduce\<close> with \<open>+\<close> on doubles, rounded at
  every step. On a page reached from the initial one through two valid goal forms the
  targets are 300000, 80000, 100000, \<open>2 ^ 53\<close> and 1; their arithmetic sum is
  \<open>9007199255220993\<close> and \<open>totalTarget\<close> is \<open>9007199255220992\<close>.
\<close>

theorem total_target_is_rounded:
  "run create_two_goals initial_page = Some five_goals_page
   \<and> reachable five_goals_page
   \<and> goal_validation large_target_form \<and> goal_validation one_rupee_form
   \<and> map target (goals five_goals_page)
       = [Fin 300000, Fin 80000, Fin 100000, Fin 9007199254740992, Fin 1]
   \<and> totalTarget five_goals_page = Fin 9007199255220992
   \<and> (300000 + 80000 + 100000 + 9007199254740992 + 1 :: rat) = 9007199255220993
   \<and> totalTarget five_goals_page \<noteq> Fin (300000 + 80000 + 100000 + 9007199254740992 + 1)"
proof -
  have "reachable five_goals_page"
    using reachable_init run_create_two_goals by (rule run_reachable)
  moreover have "goal_validation large_target_form" "goal_validation one_rupee_form"
    by (simp_all add: goal_validation_def goal_submit_disabled_def number_input_valid_def
          large_target_form_def one_rupee_form_def parse_examples)
  moreover have m: "map target (goals five_goals_page)
       = [Fin 300000, Fin 80000, Fin 100000, Fin 9007199254740992, Fin 1]"
    by (simp add: five_goals_page_def INITIAL_GOALS_def goal_handleSubmit_def
          large_target_form_def one_rupee_form_def num_or_def parse_examples)
  moreover have "totalTarget five_goals_page = foldl jadd (Fin 0) (map target (goals five_goals_page))"
    by (simp add: totalTarget_def foldl_map)
  then have "totalTarget five_goals_page = Fin 9007199255220992"
    unfolding m by (simp add: to_double_compute)
  ultimately show ?thesis using run_create_two_goals by simp
qed

text \<open>
  C8, amended. At every render \<open>totalBudget\<close> is the sum of \<open>limit\<close> and \<open>totalSpent\<close> the
  sum of \<open>spent\<close> over the budgets, \<open>totalSaved\<close> the sum of \<open>saved\<close> and \<open>totalTarget\<close>
  the sum of \<open>target\<close> over the goals, each taken from left to right with the \<open>+\<close> of
  doubles; the total equals the arithmetic sum whenever the summed values are whole
  numbers whose absolute values add up to at most \<open>2 ^ 53\<close>.
\<close>

theorem totals_are_rounded_sums:
  "totalBudget s = foldl jadd (Fin 0) (map limit (budgets s))
   \<and> totalSpent s = foldl jadd (Fin 0) (map spent (budgets s))
   \<and> totalSaved s = foldl jadd (Fin 0) (map saved (goals s))
   \<and> totalTarget s = foldl jadd (Fin 0) (map target (goals s))
   \<and> (map limit (budgets s) = map (\<lambda>n. Fin (of_int n)) ls \<and> sum_list (map abs ls) \<le> 2 ^ 53
      \<longrightarrow> totalBudget s = Fin (of_int (sum_list ls)))
   \<and> (map spent (budgets s) = map (\<lambda>n. Fin (of_int n)) ps \<and> sum_list (map abs ps) \<le> 2 ^ 53
      \<longrightarrow> totalSpent s = Fin (of_int (sum_list ps)))
   \<and> (map saved (goals s) = map (\<lambda>n. Fin (of_int n)) vs \<and> sum_list (map abs vs) \<le> 2 ^ 53
      \<longrightarrow> totalSaved s = Fin (of_int (sum_list vs)))
   \<and> (map target (goals s) = map (\<lambda>n. Fin (of_int n)) ts \<and> sum_list (map abs ts) \<le> 2 ^ 53
      \<longrightarrow> totalTarget s = Fin (of_int (sum_list ts)))"
  unfolding totalBudget_def totalSpent_def totalSaved_def totalTarget_def
  by (intro conjI impI) (simp_all add: foldl_map total_of_ints)

text \<open>The four totals of the initial page.\<close>

theorem totals_are_rounded_sums_witness:
  "map limit (budgets initial_page) = map (\<lambda>n. Fin (of_int n)) [15000, 6000, 12000, 4000, 5000]
   \<and> sum_list (map abs [15000, 6000, 12000, 4000, 5000 :: int]) \<le> 2 ^ 53
   \<and> totalBudget initial_page = Fin (of_int (sum_list [15000, 6000, 12000, 4000, 5000]))
   \<and> map spent (budgets initial_page) = map (\<lambda>n. Fin (of_int n)) [12500, 5500, 8000, 4500, 2000]
   \<and> sum_list (map abs [12500, 5500, 8000, 4500, 2000 :: int]) \<le> 2 ^ 53
   \<and> totalSpent initial_page = Fin (of_int (sum_list [12500, 5500, 8000, 4500, 2000]))
   \<and> map saved (goals initial_page) = map (\<lambda>n. Fin (of_int n)) [150000, 45000, 25000]
   \<and> sum_list (map abs [150000, 45000, 25000 :: int]) \<le> 2 ^ 53
   \<and> totalSaved initial_page = Fin (of_int (sum_list [150000, 45000, 25000]))
   \<and> map target (goals initial_page) = map (\<lambda>n. Fin (of_int n)) [300000, 80000, 100000]
   \<and> sum_list (map abs [300000, 80000, 100000 :: int]) \<le> 2 ^ 53
   \<and> totalTarget initial_page = Fin (of_int (sum_list [300000, 80000, 100000]))"
proof -
  have l: "map limit (budgets initial_page) = map (\<lambda>n. Fin (of_int n)) [15000, 6000, 12000, 4000, 5000]"
    "sum_list (map abs [15000, 6000, 12000, 4000, 5000 :: int]) \<le> 2 ^ 53"
    by (simp_all add: initial_page_def INITIAL_BUDGETS_def)
  have p: "map spent (budgets initial_page) = map (\<lambda>n. Fin (of_int n)) [12500, 5500, 8000, 4500, 2000]"
    "sum_list (map abs [12500, 5500, 8000, 4500, 2000 :: int]) \<le> 2 ^ 53"
    by (simp_all add: initial_page_def INITIAL_BUDGETS_def)
  have v: "map saved (goals initial_page) = map (\<lambda>n. Fin (of_int n)) [150000, 45000, 25000]"
    "sum_list (map abs [150000, 45000, 25000 :: int]) \<le> 2 ^ 53"
    by (simp_all add: initial_page_def INITIAL_GOALS_def)
  have t: "map target (goals initial_page) = map (\<lambda>n. Fin (of_int n)) [300000, 80000, 100000]"
    "sum_list (map abs [300000, 80000, 100000 :: int]) \<le> 2 ^ 53"
    by (simp_all add: initial_page_def INITIAL_GOALS_def)
  from totals_are_rounded_sums
         [of initial_page "[15000, 6000, 12000, 4000, 5000]" "[12500, 5500, 8000, 4500, 2000]"
             "[150000, 45000, 25000]" "[300000, 80000, 100000]"]
    l p v t
  show ?thesis by blast
qed

end
